theory Spec2Isabelle
  imports Complex_Main
begin

section \<open>JavaScript numbers\<close>

text \<open>
  A JavaScript number is a finite value, one of the two infinities, or NaN. The two
  zeros are not distinguished: they differ in a quotient only, and the divisions of the
  solver are \<open>1.0 / 60.0\<close> and \<open>1.0 / (G_Minv_Gt + eps)\<close>, whose denominator is a sum
  that starts from the positive zero and therefore is never the negative zero.

  The rounding of an exact result to double precision, the rounding of a number stored in
  a \<open>Float32Array\<close> and the conversion of a string to a number belong to the language
  runtime, not to the solver. They are the three fields of a \<open>runtime\<close>, which every
  operation takes as its first argument, so that each theorem below holds whatever the
  rounding is (a rounding may overflow to an infinity).
\<close>

datatype number = Fin real | PInf | NInf | NaN

record runtime =
  round64 :: "real \<Rightarrow> number"
  round32 :: "real \<Rightarrow> number"
  str2num :: "string \<Rightarrow> number"

fun num_neg :: "number \<Rightarrow> number" where
  "num_neg (Fin u) = Fin (- u)"
| "num_neg PInf = NInf"
| "num_neg NInf = PInf"
| "num_neg NaN = NaN"

fun num_add :: "runtime \<Rightarrow> number \<Rightarrow> number \<Rightarrow> number" where
  "num_add rt (Fin u) (Fin v) = round64 rt (u + v)"
| "num_add rt NaN _ = NaN"
| "num_add rt _ NaN = NaN"
| "num_add rt PInf NInf = NaN"
| "num_add rt NInf PInf = NaN"
| "num_add rt PInf _ = PInf"
| "num_add rt _ PInf = PInf"
| "num_add rt NInf _ = NInf"
| "num_add rt _ NInf = NInf"

definition num_sub :: "runtime \<Rightarrow> number \<Rightarrow> number \<Rightarrow> number" where
  "num_sub rt u v = num_add rt u (num_neg v)"

fun num_sgn :: "number \<Rightarrow> int" where
  "num_sgn (Fin u) = (if u = 0 then 0 else if 0 < u then 1 else - 1)"
| "num_sgn PInf = 1"
| "num_sgn NInf = - 1"
| "num_sgn NaN = 0"

definition signed_inf :: "int \<Rightarrow> number" where
  "signed_inf sg = (if sg = 0 then NaN else if 0 < sg then PInf else NInf)"

fun num_mul :: "runtime \<Rightarrow> number \<Rightarrow> number \<Rightarrow> number" where
  "num_mul rt (Fin u) (Fin v) = round64 rt (u * v)"
| "num_mul rt NaN _ = NaN"
| "num_mul rt _ NaN = NaN"
| "num_mul rt u v = signed_inf (num_sgn u * num_sgn v)"

fun num_div :: "runtime \<Rightarrow> number \<Rightarrow> number \<Rightarrow> number" where
  "num_div rt (Fin u) (Fin v) =
     (if v = 0 then signed_inf (num_sgn (Fin u)) else round64 rt (u / v))"
| "num_div rt NaN _ = NaN"
| "num_div rt _ NaN = NaN"
| "num_div rt (Fin u) _ = Fin 0"
| "num_div rt u (Fin v) = signed_inf (num_sgn u * (if v < 0 then - 1 else 1))"
| "num_div rt _ _ = NaN"

fun num_lt :: "number \<Rightarrow> number \<Rightarrow> bool" where
  "num_lt (Fin u) (Fin v) = (u < v)"
| "num_lt NaN _ = False"
| "num_lt _ NaN = False"
| "num_lt _ NInf = False"
| "num_lt PInf _ = False"
| "num_lt _ _ = True"

definition num_gt :: "number \<Rightarrow> number \<Rightarrow> bool" where
  "num_gt u v = num_lt v u"

fun num_ge :: "number \<Rightarrow> number \<Rightarrow> bool" where
  "num_ge (Fin u) (Fin v) = (v \<le> u)"
| "num_ge NaN _ = False"
| "num_ge _ NaN = False"
| "num_ge PInf _ = True"
| "num_ge _ NInf = True"
| "num_ge _ _ = False"

text \<open>A store into a \<open>Float32Array\<close> rounds a finite number to single precision.\<close>

fun f32 :: "runtime \<Rightarrow> number \<Rightarrow> number" where
  "f32 rt (Fin u) = round32 rt u"
| "f32 rt u = u"

text \<open>
  The bounds of a constraint are not always numbers in the source (the contact
  constructor passes the string \<open>'inf'\<close>), and a read past the end of an array gives
  \<open>undefined\<close>; \<open>toNumber\<close> is the conversion that \<open>isNaN\<close>, a comparison with a
  number, a subtraction and a store into a typed array apply.
\<close>

datatype jsval = NumV number | StrV string | Undef

fun toNumber :: "runtime \<Rightarrow> jsval \<Rightarrow> number" where
  "toNumber rt (NumV u) = u"
| "toNumber rt (StrV s) = str2num rt s"
| "toNumber rt Undef = NaN"

definition isNaN :: "runtime \<Rightarrow> jsval \<Rightarrow> bool" where
  "isNaN rt v = (toNumber rt v = NaN)"

text \<open>
  A read of a plain array of numbers. Past the end JavaScript gives \<open>undefined\<close>, which
  every use in the solver (a product, or the copy into a \<open>Float32Array\<close>) turns into NaN.
\<close>

definition num_at :: "number list \<Rightarrow> nat \<Rightarrow> number" where
  "num_at xs ix = (if ix < length xs then xs ! ix else NaN)"

definition bound_at :: "jsval list \<Rightarrow> nat \<Rightarrow> jsval" where
  "bound_at xs ix = (if ix < length xs then xs ! ix else Undef)"

definition flag_at :: "bool list \<Rightarrow> nat \<Rightarrow> bool" where
  "flag_at xs ix = (if ix < length xs then xs ! ix else False)"

text \<open>
  A runtime without rounding, for evaluating the solver on inputs whose results are all
  representable (small integers and dyadic fractions). Its string conversion stands for
  that of JavaScript on the one string the solver passes, \<open>'inf'\<close>, which is not a
  number there.
\<close>

definition exact_rt :: runtime where
  "exact_rt = \<lparr> round64 = Fin, round32 = Fin,
                str2num = (\<lambda>s. if s = ''Infinity'' then PInf else NaN) \<rparr>"

section \<open>Vectors\<close>

text \<open>
  Modelled from the spec: \<open>CANNON.Vec3\<close> is not among the sources. The spec uses the sum,
  the difference, the dot product (\<open>q = q\<^sub>v \<cdot> n\<close>) and the cross product (\<open>ri \<times> n\<close>) of two
  vectors of three numbers; they are computed componentwise in double precision.
\<close>

datatype vec3 = Vec3 number number number

fun vadd :: "runtime \<Rightarrow> vec3 \<Rightarrow> vec3 \<Rightarrow> vec3" where
  "vadd rt (Vec3 x1 y1 z1) (Vec3 x2 y2 z2) =
     Vec3 (num_add rt x1 x2) (num_add rt y1 y2) (num_add rt z1 z2)"

fun vsub :: "runtime \<Rightarrow> vec3 \<Rightarrow> vec3 \<Rightarrow> vec3" where
  "vsub rt (Vec3 x1 y1 z1) (Vec3 x2 y2 z2) =
     Vec3 (num_sub rt x1 x2) (num_sub rt y1 y2) (num_sub rt z1 z2)"

fun dot :: "runtime \<Rightarrow> vec3 \<Rightarrow> vec3 \<Rightarrow> number" where
  "dot rt (Vec3 x1 y1 z1) (Vec3 x2 y2 z2) =
     num_add rt (num_add rt (num_mul rt x1 x2) (num_mul rt y1 y2)) (num_mul rt z1 z2)"

fun cross :: "runtime \<Rightarrow> vec3 \<Rightarrow> vec3 \<Rightarrow> vec3" where
  "cross rt (Vec3 x1 y1 z1) (Vec3 x2 y2 z2) =
     Vec3 (num_sub rt (num_mul rt y1 z2) (num_mul rt z1 y2))
          (num_sub rt (num_mul rt z1 x2) (num_mul rt x1 z2))
          (num_sub rt (num_mul rt x1 y2) (num_mul rt y1 x2))"

fun vx :: "vec3 \<Rightarrow> number" where "vx (Vec3 x1 y1 z1) = x1"
fun vy :: "vec3 \<Rightarrow> number" where "vy (Vec3 x1 y1 z1) = y1"
fun vz :: "vec3 \<Rightarrow> number" where "vz (Vec3 x1 y1 z1) = z1"

section \<open>The solver object\<close>

text \<open>
  \<open>solve\<close> replaces the plain array \<open>this.i\<close> by an \<open>Int16Array\<close>, which has no
  \<open>push\<close>; the model keeps track of which of the two the field holds. A store into an
  \<open>Int16Array\<close> wraps the integer to sixteen bits, two's complement.
\<close>

datatype index_array = Plain "int list" | Int16Array "int list"

fun elems :: "index_array \<Rightarrow> int list" where
  "elems (Plain xs) = xs"
| "elems (Int16Array xs) = xs"

definition to_int16 :: "int \<Rightarrow> int" where
  "to_int16 v = (v + 32768) mod 65536 - 32768"

datatype error = TypeError

record solver =
  iterations :: int
  h :: number
  a :: number
  b :: number
  eps :: number
  k :: number
  d :: number
  G :: "number list"
  MinvTrace :: "number list"
  Fext :: "number list"
  q :: "number list"
  qdot :: "number list"
  n :: nat
  upper :: "jsval list"
  lower :: "jsval list"
  hasupper :: "bool list"
  haslower :: "bool list"
  i :: index_array
  j :: "int list"
  vxlambda :: "number list"
  vylambda :: "number list"
  vzlambda :: "number list"
  wxlambda :: "number list"
  wylambda :: "number list"
  wzlambda :: "number list"
  debug :: bool

text \<open>
  \<open>reset\<close>: the constraint arrays become empty and the six arrays of the bodies are new
  \<open>Float32Array\<close>s of \<open>numbodies\<close> zeros.
\<close>

definition reset :: "nat \<Rightarrow> solver \<Rightarrow> solver" where
  "reset numbodies s =
     s\<lparr> G := [], MinvTrace := [], Fext := [], q := [], qdot := [], n := 0,
        upper := [], lower := [], hasupper := [], haslower := [],
        i := Plain [], j := [],
        vxlambda := replicate numbodies (Fin 0),
        vylambda := replicate numbodies (Fin 0),
        vzlambda := replicate numbodies (Fin 0),
        wxlambda := replicate numbodies (Fin 0),
        wylambda := replicate numbodies (Fin 0),
        wzlambda := replicate numbodies (Fin 0) \<rparr>"

text \<open>
  The constructor. An argument that is left out is \<open>None\<close>; \<open>iter || 10\<close> and
  \<open>h || 1.0/60.0\<close> take the default when the argument is missing, zero or NaN. The
  constraint arrays do not exist before the call of \<open>reset\<close>, which creates them.
\<close>

definition falsy_num :: "number \<Rightarrow> bool" where
  "falsy_num v = (v = Fin 0 \<or> v = NaN)"

definition Solver ::
  "runtime \<Rightarrow> number \<Rightarrow> number \<Rightarrow> number \<Rightarrow> number \<Rightarrow> number \<Rightarrow> int option \<Rightarrow> number option \<Rightarrow> solver" where
  "Solver rt a0 b0 eps0 k0 d0 iter h0 =
     (reset 0
       \<lparr> iterations = (case iter of None \<Rightarrow> 10 | Some v \<Rightarrow> if v = 0 then 10 else v),
         h = (case h0 of None \<Rightarrow> num_div rt (Fin 1) (Fin 60)
              | Some v \<Rightarrow> if falsy_num v then num_div rt (Fin 1) (Fin 60) else v),
         a = a0, b = b0, eps = eps0, k = k0, d = d0,
         G = [], MinvTrace = [], Fext = [], q = [], qdot = [], n = 0,
         upper = [], lower = [], hasupper = [], haslower = [],
         i = Plain [], j = [],
         vxlambda = [], vylambda = [], vzlambda = [],
         wxlambda = [], wylambda = [], wzlambda = [] ,
         debug = False \<rparr>)"

text \<open>
  \<open>addConstraint\<close>. The loop pushes the twelve slots of each row (a missing slot is
  \<open>undefined\<close>, see \<open>num_at\<close>); then the bounds and their flags are pushed, then the body
  indices, and \<open>n\<close> is incremented. \<open>this.i.push\<close> throws a TypeError when \<open>this.i\<close> is
  an \<open>Int16Array\<close>: the pushes before it have happened, those after it have not. The
  output of the debug flag to the console is not part of the state.
\<close>

definition push_slot ::
  "number list \<Rightarrow> number list \<Rightarrow> number list \<Rightarrow> number list \<Rightarrow> number list \<Rightarrow> nat \<Rightarrow> solver \<Rightarrow> solver" where
  "push_slot Ga Ma qa qda Fa ix s =
     s\<lparr> q := q s @ [num_at qa ix],
        qdot := qdot s @ [num_at qda ix],
        MinvTrace := MinvTrace s @ [num_at Ma ix],
        G := G s @ [num_at Ga ix],
        Fext := Fext s @ [num_at Fa ix] \<rparr>"

definition push_bounds :: "runtime \<Rightarrow> jsval \<Rightarrow> jsval \<Rightarrow> solver \<Rightarrow> solver" where
  "push_bounds rt lo up s =
     s\<lparr> upper := upper s @ [up],
        hasupper := hasupper s @ [\<not> isNaN rt up],
        lower := lower s @ [lo],
        haslower := haslower s @ [\<not> isNaN rt lo] \<rparr>"

definition addConstraint ::
  "runtime \<Rightarrow> number list \<Rightarrow> number list \<Rightarrow> number list \<Rightarrow> number list \<Rightarrow> number list \<Rightarrow>
   jsval \<Rightarrow> jsval \<Rightarrow> int \<Rightarrow> int \<Rightarrow> solver \<Rightarrow> (error + nat) \<times> solver" where
  "addConstraint rt Ga Ma qa qda Fa lo up body_i body_j s =
     (let s1 = fold (push_slot Ga Ma qa qda Fa) [0..<12] s;
          s2 = push_bounds rt lo up s1
      in case i s2 of
           Int16Array xs \<Rightarrow> (Inl TypeError, s2)
         | Plain xs \<Rightarrow>
             (let s3 = s2\<lparr> i := Plain (xs @ [body_i]), j := j s2 @ [body_j], n := n s2 + 1 \<rparr>
              in (Inr (n s3 - 1), s3)))"

text \<open>
  \<open>addNonPenetrationConstraint\<close>. It returns nothing; the result is the exception of
  \<open>addConstraint\<close>, if any.
\<close>

definition addNonPenetrationConstraint ::
  "runtime \<Rightarrow> int \<Rightarrow> int \<Rightarrow> vec3 \<Rightarrow> vec3 \<Rightarrow> vec3 \<Rightarrow> vec3 \<Rightarrow> vec3 \<Rightarrow> vec3 \<Rightarrow> vec3 \<Rightarrow> vec3 \<Rightarrow> vec3 \<Rightarrow>
   vec3 \<Rightarrow> vec3 \<Rightarrow> vec3 \<Rightarrow> vec3 \<Rightarrow> vec3 \<Rightarrow> vec3 \<Rightarrow> vec3 \<Rightarrow> vec3 \<Rightarrow> solver \<Rightarrow> (error + unit) \<times> solver" where
  "addNonPenetrationConstraint rt bi bj xi xj ni ri rj iMi iMj iIi iIj vi vj wi wj fi fj taui tauj s =
     (let rxn = cross rt ri ni;
          u = vsub rt vj vi;
          qvec = vsub rt (vadd rt xj rj) (vadd rt xi ri);
          qq = dot rt qvec ni
      in if num_lt qq (Fin 0) then
           (case addConstraint rt
                   [num_neg (vx ni), num_neg (vy ni), num_neg (vz ni),
                    num_neg (vx rxn), num_neg (vy rxn), num_neg (vz rxn),
                    vx ni, vy ni, vz ni,
                    vx rxn, vy rxn, vz rxn]
                   [vx iMi, vy iMi, vz iMi,
                    vz iIi, vy iIi, vz iIi,
                    vx iMj, vy iMj, vz iMj,
                    vz iIj, vy iIj, vz iIj]
                   [num_neg (vx qvec), num_neg (vy qvec), num_neg (vz qvec),
                    Fin 0, Fin 0, Fin 0,
                    vx qvec, vy qvec, vz qvec,
                    Fin 0, Fin 0, Fin 0]
                   [num_neg (vx u), num_neg (vy u), num_neg (vz u),
                    Fin 0, Fin 0, Fin 0,
                    vx u, vy u, vz u,
                    Fin 0, Fin 0, Fin 0]
                   [vx fi, vy fi, vz fi,
                    vx taui, vy taui, vz taui,
                    vx fj, vy fj, vz fj,
                    vx tauj, vy tauj, vz tauj]
                   (NumV (Fin 0))
                   (StrV ''inf'')
                   bi bj s of
              (Inl e, s') \<Rightarrow> (Inl e, s')
            | (Inr r, s') \<Rightarrow> (Inr (), s'))
         else (Inr (), s))"

section \<open>The iterative solver\<close>

text \<open>
  The local typed arrays of \<open>solve\<close>. \<open>G32\<close> is the local \<open>G\<close>, the copy of \<open>this.G\<close>
  in single precision; \<open>ulambda\<close> is allocated and never used.
\<close>

record work =
  lambda :: "number list"
  dlambda :: "number list"
  ulambda :: "number list"
  B :: "number list"
  c :: "number list"
  precomp :: "int list"
  G32 :: "number list"

definition init_work :: "runtime \<Rightarrow> solver \<Rightarrow> work" where
  "init_work rt s =
     \<lparr> lambda = replicate (n s) (Fin 0),
       dlambda = replicate (n s) (Fin 0),
       ulambda = replicate (12 * n s) (Fin 0),
       B = replicate (n s) (Fin 0),
       c = replicate (n s) (Fin 0),
       precomp = replicate (n s) 0,
       G32 = map (f32 rt) (G s) \<rparr>"

text \<open>
  The index of a body is read from \<open>this.i\<close> or \<open>this.j\<close>; past the end it would be
  \<open>undefined\<close> (\<open>None\<close>). A typed array read at \<open>undefined\<close>, at a negative index or past
  its end gives \<open>undefined\<close>, which the products and sums of the solver turn into NaN; a
  store there changes no element.
\<close>

definition index_at :: "int list \<Rightarrow> nat \<Rightarrow> int option" where
  "index_at xs ix = (if ix < length xs then Some (xs ! ix) else None)"

text \<open>A read of the \<open>Int16Array\<close> of flags; \<open>undefined\<close> is as false as zero.\<close>

definition num_at_int :: "int list \<Rightarrow> nat \<Rightarrow> int" where
  "num_at_int xs ix = (if ix < length xs then xs ! ix else 0)"

definition in_range :: "number list \<Rightarrow> int option \<Rightarrow> bool" where
  "in_range xs body = (case body of None \<Rightarrow> False | Some v \<Rightarrow> 0 \<le> v \<and> v < int (length xs))"

definition body_at :: "number list \<Rightarrow> int option \<Rightarrow> number" where
  "body_at xs body = (if in_range xs body then xs ! nat (the body) else NaN)"

definition body_add :: "runtime \<Rightarrow> number list \<Rightarrow> int option \<Rightarrow> number \<Rightarrow> number list" where
  "body_add rt xs body v =
     (if in_range xs body
      then xs[nat (the body) := f32 rt (num_add rt (xs ! nat (the body)) v)]
      else xs)"

text \<open>The lazy precomputation of \<open>c[l]\<close> and \<open>B[l]\<close> (the loop over the twelve slots).\<close>

definition precomp_slot ::
  "runtime \<Rightarrow> solver \<Rightarrow> work \<Rightarrow> nat \<Rightarrow> nat \<Rightarrow> number \<times> number \<times> number \<times> number \<Rightarrow>
   number \<times> number \<times> number \<times> number" where
  "precomp_slot rt s w l12 ix acc =
     (case acc of (G_Minv_Gt, Gq, GW, GMinvf) \<Rightarrow>
       (let addi = l12 + ix in
        (num_add rt G_Minv_Gt
           (num_mul rt (num_mul rt (num_at (G32 w) addi) (num_at (MinvTrace s) addi))
                       (num_at (G32 w) addi)),
         num_add rt Gq (num_mul rt (num_at (G32 w) addi) (num_at (q s) addi)),
         num_add rt GW (num_mul rt (num_at (G32 w) addi) (num_at (qdot s) addi)),
         num_add rt GMinvf
           (num_mul rt (num_mul rt (num_at (G32 w) addi) (num_at (MinvTrace s) addi))
                       (num_at (Fext s) addi)))))"

definition precompute :: "runtime \<Rightarrow> solver \<Rightarrow> nat \<Rightarrow> work \<Rightarrow> work" where
  "precompute rt s l w =
     (if num_at_int (precomp w) l = 0 then
        (case fold (precomp_slot rt s w (12 * l)) [0..<12] (Fin 0, Fin 0, Fin 0, Fin 0) of
           (G_Minv_Gt, Gq, GW, GMinvf) \<Rightarrow>
             w\<lparr> c := (c w)[l := f32 rt (num_div rt (Fin 1) (num_add rt G_Minv_Gt (eps s)))],
                B := (B w)[l := f32 rt
                       (num_sub rt
                          (num_sub rt (num_mul rt (num_neg (a s)) Gq) (num_mul rt (b s) GW))
                          (num_mul rt (h s) GMinvf))],
                precomp := (precomp w)[l := 1] \<rparr>)
      else w)"

text \<open>\<open>Gulambda\<close>: the twelve products are added in the order of the source.\<close>

definition Gulambda :: "runtime \<Rightarrow> solver \<Rightarrow> work \<Rightarrow> nat \<Rightarrow> number" where
  "Gulambda rt s w l =
     (let body_i = index_at (elems (i s)) l;
          body_j = index_at (j s) l;
          l12 = 12 * l
      in fold (\<lambda>(off, arr, body) acc.
                 num_add rt acc (num_mul rt (num_at (G32 w) (off + l12)) (body_at arr body)))
           [(0, vxlambda s, body_i), (1, vylambda s, body_i), (2, vzlambda s, body_i),
            (3, wxlambda s, body_i), (4, wylambda s, body_i), (5, wzlambda s, body_i),
            (6, vxlambda s, body_j), (7, vylambda s, body_j), (8, vzlambda s, body_j),
            (9, wxlambda s, body_j), (10, wylambda s, body_j), (11, wzlambda s, body_j)]
           (Fin 0))"

definition update_lambda :: "runtime \<Rightarrow> solver \<Rightarrow> nat \<Rightarrow> work \<Rightarrow> work" where
  "update_lambda rt s l w =
     (let w1 = w\<lparr> dlambda := (dlambda w)[l := f32 rt
                   (num_mul rt (num_at (c w) l)
                      (num_sub rt (num_sub rt (num_at (B w) l) (Gulambda rt s w l))
                                  (num_mul rt (eps s) (num_at (lambda w) l))))] \<rparr>
      in w1\<lparr> lambda := (lambda w1)[l := f32 rt
                (num_add rt (num_at (lambda w1) l) (num_at (dlambda w1) l))] \<rparr>)"

text \<open>
  The two clamps. The lower one tests the flag of the constraint, \<open>this.haslower[l]\<close>; the
  upper one tests \<open>this.hasupper\<close>, the array itself, and an object is always true.
\<close>

definition clamp_to :: "runtime \<Rightarrow> jsval \<Rightarrow> nat \<Rightarrow> work \<Rightarrow> work" where
  "clamp_to rt bound l w =
     (let w1 = w\<lparr> lambda := (lambda w)[l := f32 rt (toNumber rt bound)] \<rparr>
      in w1\<lparr> dlambda := (dlambda w1)[l := f32 rt
                (num_sub rt (toNumber rt bound) (num_at (lambda w1) l))] \<rparr>)"

definition lower_fires :: "runtime \<Rightarrow> solver \<Rightarrow> nat \<Rightarrow> work \<Rightarrow> bool" where
  "lower_fires rt s l w =
     (flag_at (haslower s) l \<and> num_lt (num_at (lambda w) l) (toNumber rt (bound_at (lower s) l)))"

definition clamp_lower :: "runtime \<Rightarrow> solver \<Rightarrow> nat \<Rightarrow> work \<Rightarrow> work" where
  "clamp_lower rt s l w =
     (if lower_fires rt s l w then clamp_to rt (bound_at (lower s) l) l w else w)"

definition truthy_object :: "'a list \<Rightarrow> bool" where
  "truthy_object xs = True"

definition upper_fires :: "runtime \<Rightarrow> solver \<Rightarrow> nat \<Rightarrow> work \<Rightarrow> bool" where
  "upper_fires rt s l w =
     (truthy_object (hasupper s) \<and> num_gt (num_at (lambda w) l) (toNumber rt (bound_at (upper s) l)))"

definition clamp_upper :: "runtime \<Rightarrow> solver \<Rightarrow> nat \<Rightarrow> work \<Rightarrow> work" where
  "clamp_upper rt s l w =
     (if upper_fires rt s l w then clamp_to rt (bound_at (upper s) l) l w else w)"

text \<open>The velocity changes are added to the arrays of the two bodies, one slot after the other.\<close>

definition slot_delta :: "runtime \<Rightarrow> solver \<Rightarrow> work \<Rightarrow> nat \<Rightarrow> nat \<Rightarrow> number" where
  "slot_delta rt s w l off =
     num_mul rt (num_mul rt (num_at (dlambda w) l) (num_at (MinvTrace s) (12 * l + off)))
                (num_at (G32 w) (12 * l + off))"

definition propagate :: "runtime \<Rightarrow> nat \<Rightarrow> work \<Rightarrow> solver \<Rightarrow> solver" where
  "propagate rt l w s =
     (let body_i = index_at (elems (i s)) l;
          body_j = index_at (j s) l;
          s1 = s\<lparr> vxlambda := body_add rt (vxlambda s) body_i (slot_delta rt s w l 0) \<rparr>;
          s2 = s1\<lparr> vylambda := body_add rt (vylambda s1) body_i (slot_delta rt s w l 1) \<rparr>;
          s3 = s2\<lparr> vzlambda := body_add rt (vzlambda s2) body_i (slot_delta rt s w l 2) \<rparr>;
          s4 = s3\<lparr> wxlambda := body_add rt (wxlambda s3) body_i (slot_delta rt s w l 3) \<rparr>;
          s5 = s4\<lparr> wylambda := body_add rt (wylambda s4) body_i (slot_delta rt s w l 4) \<rparr>;
          s6 = s5\<lparr> wzlambda := body_add rt (wzlambda s5) body_i (slot_delta rt s w l 5) \<rparr>;
          s7 = s6\<lparr> vxlambda := body_add rt (vxlambda s6) body_j (slot_delta rt s w l 6) \<rparr>;
          s8 = s7\<lparr> vylambda := body_add rt (vylambda s7) body_j (slot_delta rt s w l 7) \<rparr>;
          s9 = s8\<lparr> vzlambda := body_add rt (vzlambda s8) body_j (slot_delta rt s w l 8) \<rparr>;
          s10 = s9\<lparr> wxlambda := body_add rt (wxlambda s9) body_j (slot_delta rt s w l 9) \<rparr>;
          s11 = s10\<lparr> wylambda := body_add rt (wylambda s10) body_j (slot_delta rt s w l 10) \<rparr>
      in s11\<lparr> wzlambda := body_add rt (wzlambda s11) body_j (slot_delta rt s w l 11) \<rparr>)"

text \<open>One pass of the body of the inner loop, for the constraint \<open>l\<close>.\<close>

definition solve_body :: "runtime \<Rightarrow> nat \<Rightarrow> solver \<times> work \<Rightarrow> solver \<times> work" where
  "solve_body rt l st =
     (case st of (s, w) \<Rightarrow>
       (let w1 = precompute rt s l w;
            w2 = update_lambda rt s l w1;
            w3 = clamp_lower rt s l w2;
            w4 = clamp_upper rt s l w3
        in (propagate rt l w4 s, w4)))"

text \<open>
  \<open>solve\<close>: \<open>this.i\<close> becomes an \<open>Int16Array\<close>, the local arrays are allocated, and the
  outer loop runs \<open>iterations\<close> sweeps over the \<open>n\<close> constraints (none when \<open>iterations\<close>
  is zero or negative). \<open>solve_state\<close> also gives the local arrays at the end;
  \<open>solve\<close>, as the source, leaves only the object.
\<close>

definition sweep :: "runtime \<Rightarrow> nat \<Rightarrow> solver \<times> work \<Rightarrow> solver \<times> work" where
  "sweep rt m st = fold (solve_body rt) [0..<m] st"

definition solve_start :: "runtime \<Rightarrow> solver \<Rightarrow> solver \<times> work" where
  "solve_start rt s =
     (let s0 = s\<lparr> i := Int16Array (map to_int16 (elems (i s))) \<rparr>
      in (s0, init_work rt s0))"

definition solve_state :: "runtime \<Rightarrow> solver \<Rightarrow> solver \<times> work" where
  "solve_state rt s =
     (let st = solve_start rt s
      in (sweep rt (n (fst st)) ^^ nat (iterations (fst st))) st)"

definition solve :: "runtime \<Rightarrow> solver \<Rightarrow> solver" where
  "solve rt s = fst (solve_state rt s)"

section \<open>Notions of the specification\<close>

text \<open>
  The specification calls a bound present when it is finite. \<open>is_finite\<close> is that notion,
  to be compared with the flag that \<open>addConstraint\<close> records.
\<close>

definition is_finite :: "runtime \<Rightarrow> jsval \<Rightarrow> bool" where
  "is_finite rt v = (case toNumber rt v of Fin u \<Rightarrow> True | _ \<Rightarrow> False)"

text \<open>
  The invariant of the data model: the five flat arrays hold twelve slots for each of the
  \<open>n\<close> constraints, and the arrays of bounds, flags and body indices one entry each.
\<close>

definition lengths_ok :: "solver \<Rightarrow> bool" where
  "lengths_ok s =
     (length (G s) = 12 * n s \<and> length (MinvTrace s) = 12 * n s \<and> length (q s) = 12 * n s \<and>
      length (qdot s) = 12 * n s \<and> length (Fext s) = 12 * n s \<and>
      length (lower s) = n s \<and> length (upper s) = n s \<and>
      length (haslower s) = n s \<and> length (hasupper s) = n s \<and>
      length (elems (i s)) = n s \<and> length (j s) = n s)"

fun is_plain :: "index_array \<Rightarrow> bool" where
  "is_plain (Plain xs) = True"
| "is_plain (Int16Array xs) = False"

text \<open>
  A sequence of calls of \<open>addConstraint\<close>, each given by its nine arguments; the value
  returned (or the exception) is dropped, the object is kept.
\<close>

record constraint_args =
  arg_G :: "number list"
  arg_MinvTrace :: "number list"
  arg_q :: "number list"
  arg_qdot :: "number list"
  arg_Fext :: "number list"
  arg_lower :: jsval
  arg_upper :: jsval
  arg_body_i :: int
  arg_body_j :: int

definition add_call :: "runtime \<Rightarrow> constraint_args \<Rightarrow> solver \<Rightarrow> solver" where
  "add_call rt ca s =
     snd (addConstraint rt (arg_G ca) (arg_MinvTrace ca) (arg_q ca) (arg_qdot ca) (arg_Fext ca)
            (arg_lower ca) (arg_upper ca) (arg_body_i ca) (arg_body_j ca) s)"

definition add_calls :: "runtime \<Rightarrow> constraint_args list \<Rightarrow> solver \<Rightarrow> solver" where
  "add_calls rt cas s = fold (add_call rt) cas s"

text \<open>
  \<open>same_constraints s t\<close>: \<open>t\<close> differs from \<open>s\<close> at most in the contents of the six
  arrays of the bodies.
\<close>

definition same_constraints :: "solver \<Rightarrow> solver \<Rightarrow> bool" where
  "same_constraints s t =
     (iterations t = iterations s \<and> h t = h s \<and> a t = a s \<and> b t = b s \<and> eps t = eps s \<and>
      k t = k s \<and> d t = d s \<and> G t = G s \<and> MinvTrace t = MinvTrace s \<and> Fext t = Fext s \<and>
      q t = q s \<and> qdot t = qdot s \<and> n t = n s \<and> upper t = upper s \<and> lower t = lower s \<and>
      hasupper t = hasupper s \<and> haslower t = haslower s \<and> i t = i s \<and> j t = j s \<and>
      debug t = debug s \<and>
      length (vxlambda t) = length (vxlambda s) \<and> length (vylambda t) = length (vylambda s) \<and>
      length (vzlambda t) = length (vzlambda s) \<and> length (wxlambda t) = length (wxlambda s) \<and>
      length (wylambda t) = length (wylambda s) \<and> length (wzlambda t) = length (wzlambda s))"

text \<open>The accumulated impulse of the constraint \<open>l\<close> is not below zero (it may be NaN).\<close>

definition not_negative :: "nat \<Rightarrow> work \<Rightarrow> bool" where
  "not_negative l w = (\<not> num_lt (num_at (lambda w) l) (Fin 0))"

text \<open>
  The state of the local arrays after the update of \<open>lambda[l]\<close> and after the lower
  clamp, in one pass of the body of the inner loop from the state \<open>(s, w)\<close>.
\<close>

definition updated :: "runtime \<Rightarrow> solver \<Rightarrow> nat \<Rightarrow> work \<Rightarrow> work" where
  "updated rt s l w = update_lambda rt s l (precompute rt s l w)"

definition lower_clamped :: "runtime \<Rightarrow> solver \<Rightarrow> nat \<Rightarrow> work \<Rightarrow> work" where
  "lower_clamped rt s l w = clamp_lower rt s l (updated rt s l w)"

text \<open>
  What the clamps and the propagation need of the numbers: a bound that single precision
  holds exactly, finite slots of the mass row and of the Jacobian row of a constraint, and
  entries of the arrays of the bodies that adding zero and storing leaves as they are
  (as it does every single precision number).
\<close>

definition exact32 :: "runtime \<Rightarrow> number \<Rightarrow> bool" where
  "exact32 rt v = (case v of Fin r \<Rightarrow> round32 rt r = Fin r | _ \<Rightarrow> False)"

definition is_fin :: "number \<Rightarrow> bool" where
  "is_fin v = (case v of Fin r \<Rightarrow> True | _ \<Rightarrow> False)"

definition stable :: "runtime \<Rightarrow> number \<Rightarrow> bool" where
  "stable rt v = (f32 rt (num_add rt v (Fin 0)) = v)"

definition slots_finite :: "solver \<Rightarrow> work \<Rightarrow> nat \<Rightarrow> bool" where
  "slots_finite s w l =
     list_all (\<lambda>off. is_fin (num_at (MinvTrace s) (12 * l + off)) \<and>
                      is_fin (num_at (G32 w) (12 * l + off))) [0..<12]"

definition deltas_stable :: "runtime \<Rightarrow> solver \<Rightarrow> bool" where
  "deltas_stable rt s =
     (list_all (stable rt) (vxlambda s) \<and> list_all (stable rt) (vylambda s) \<and>
      list_all (stable rt) (vzlambda s) \<and> list_all (stable rt) (wxlambda s) \<and>
      list_all (stable rt) (wylambda s) \<and> list_all (stable rt) (wzlambda s))"

text \<open>
  The quantities of the specification, from the arrays of the object alone. \<open>sum12\<close> adds
  the twelve slots of a constraint in their order, and \<open>slot_G\<close> is a slot of the Jacobian
  row as the solver reads it, from its copy in single precision. \<open>Gu_at\<close> pairs the slots
  0 to 5 with the six arrays at the first body and the slots 6 to 11 with the same
  arrays at the second body.
\<close>

definition slot_G :: "runtime \<Rightarrow> solver \<Rightarrow> nat \<Rightarrow> nat \<Rightarrow> number" where
  "slot_G rt s l sl = f32 rt (num_at (G s) (12 * l + sl))"

definition sum12 :: "runtime \<Rightarrow> (nat \<Rightarrow> number) \<Rightarrow> number" where
  "sum12 rt f = foldl (num_add rt) (Fin 0) (map f [0..<12])"

definition G_Minv_Gt :: "runtime \<Rightarrow> solver \<Rightarrow> nat \<Rightarrow> number" where
  "G_Minv_Gt rt s l =
     sum12 rt (\<lambda>sl. num_mul rt (num_mul rt (slot_G rt s l sl) (num_at (MinvTrace s) (12 * l + sl)))
                              (slot_G rt s l sl))"

definition Gq :: "runtime \<Rightarrow> solver \<Rightarrow> nat \<Rightarrow> number" where
  "Gq rt s l = sum12 rt (\<lambda>sl. num_mul rt (slot_G rt s l sl) (num_at (q s) (12 * l + sl)))"

definition GW :: "runtime \<Rightarrow> solver \<Rightarrow> nat \<Rightarrow> number" where
  "GW rt s l = sum12 rt (\<lambda>sl. num_mul rt (slot_G rt s l sl) (num_at (qdot s) (12 * l + sl)))"

definition GMinvf :: "runtime \<Rightarrow> solver \<Rightarrow> nat \<Rightarrow> number" where
  "GMinvf rt s l =
     sum12 rt (\<lambda>sl. num_mul rt (num_mul rt (slot_G rt s l sl) (num_at (MinvTrace s) (12 * l + sl)))
                              (num_at (Fext s) (12 * l + sl)))"

definition effectiveInverseMass :: "runtime \<Rightarrow> solver \<Rightarrow> nat \<Rightarrow> number" where
  "effectiveInverseMass rt s l = f32 rt (num_div rt (Fin 1) (num_add rt (G_Minv_Gt rt s l) (eps s)))"

definition biasTerm :: "runtime \<Rightarrow> solver \<Rightarrow> nat \<Rightarrow> number" where
  "biasTerm rt s l =
     f32 rt (num_sub rt
               (num_sub rt (num_mul rt (num_neg (a s)) (Gq rt s l)) (num_mul rt (b s) (GW rt s l)))
               (num_mul rt (h s) (GMinvf rt s l)))"

definition delta_at :: "solver \<Rightarrow> int option \<Rightarrow> int option \<Rightarrow> nat \<Rightarrow> number" where
  "delta_at s body_i body_j sl =
     body_at ([vxlambda s, vylambda s, vzlambda s, wxlambda s, wylambda s, wzlambda s] ! (sl mod 6))
       (if sl < 6 then body_i else body_j)"

definition Gu_at :: "runtime \<Rightarrow> solver \<Rightarrow> work \<Rightarrow> nat \<Rightarrow> int option \<Rightarrow> int option \<Rightarrow> number" where
  "Gu_at rt s w l body_i body_j =
     sum12 rt (\<lambda>sl. num_mul rt (num_at (G32 w) (12 * l + sl)) (delta_at s body_i body_j sl))"

definition cache_ok :: "runtime \<Rightarrow> solver \<Rightarrow> work \<Rightarrow> bool" where
  "cache_ok rt s w =
     (G32 w = map (f32 rt) (G s) \<and> length (c w) = n s \<and> length (B w) = n s \<and>
      length (precomp w) = n s \<and> length (lambda w) = n s \<and> length (dlambda w) = n s \<and>
      list_all (\<lambda>l. num_at_int (precomp w) l \<noteq> 0 \<longrightarrow>
                  num_at (c w) l = effectiveInverseMass rt s l \<and> num_at (B w) l = biasTerm rt s l)
        [0..<n s])"

text \<open>
  The rows of the contact constraint in the words of the specification: the negation of a
  vector, a row of four vectors, and the separation vector
  \<open>(xj + rj) - (xi + ri)\<close> of the two contact points.
\<close>

definition vneg :: "vec3 \<Rightarrow> vec3" where
  "vneg v = Vec3 (num_neg (vx v)) (num_neg (vy v)) (num_neg (vz v))"

definition row12 :: "vec3 \<Rightarrow> vec3 \<Rightarrow> vec3 \<Rightarrow> vec3 \<Rightarrow> number list" where
  "row12 p1 p2 p3 p4 =
     [vx p1, vy p1, vz p1, vx p2, vy p2, vz p2, vx p3, vy p3, vz p3, vx p4, vy p4, vz p4]"

definition contact_q :: "runtime \<Rightarrow> vec3 \<Rightarrow> vec3 \<Rightarrow> vec3 \<Rightarrow> vec3 \<Rightarrow> vec3" where
  "contact_q rt xi xj ri rj = vsub rt (vadd rt xj rj) (vadd rt xi ri)"

section \<open>Concrete inputs\<close>

text \<open>
  A solver with \<open>a = b = h = 1\<close>, \<open>eps = 2\<close> and one iteration, two bodies, and one
  constraint along the x axis between body 0 and body \<open>bj\<close> with the given bounds. Every
  number that \<open>solve\<close> computes from it is a small dyadic fraction, which double and
  single precision represent exactly.
\<close>

definition zero3 :: vec3 where
  "zero3 = Vec3 (Fin 0) (Fin 0) (Fin 0)"

definition ex3 :: vec3 where
  "ex3 = Vec3 (Fin 1) (Fin 0) (Fin 0)"

definition ex_solver :: solver where
  "ex_solver = Solver exact_rt (Fin 1) (Fin 1) (Fin 2) (Fin 0) (Fin 0) (Some 1) (Some (Fin 1))"

definition ex_G :: "number list" where
  "ex_G = [Fin (- 1), Fin 0, Fin 0, Fin 0, Fin 0, Fin 0, Fin 1, Fin 0, Fin 0, Fin 0, Fin 0, Fin 0]"

definition ex_args :: "jsval \<Rightarrow> jsval \<Rightarrow> int \<Rightarrow> constraint_args" where
  "ex_args lo up bj =
     \<lparr> arg_G = ex_G, arg_MinvTrace = replicate 12 (Fin 1), arg_q = ex_G,
       arg_qdot = replicate 12 (Fin 0), arg_Fext = replicate 12 (Fin 0),
       arg_lower = lo, arg_upper = up, arg_body_i = 0, arg_body_j = bj \<rparr>"

definition ex_state :: "jsval \<Rightarrow> jsval \<Rightarrow> int \<Rightarrow> solver" where
  "ex_state lo up bj = add_call exact_rt (ex_args lo up bj) (reset 2 ex_solver)"

text \<open>The object and the local arrays as \<open>solve\<close> has them when it enters the loops.\<close>

definition ex_inside :: "jsval \<Rightarrow> jsval \<Rightarrow> int \<Rightarrow> solver" where
  "ex_inside lo up bj = (ex_state lo up bj)\<lparr> i := Int16Array [0] \<rparr>"

definition ex_work :: work where
  "ex_work = \<lparr> lambda = [Fin 0], dlambda = [Fin 0], ulambda = replicate 12 (Fin 0),
                B = [Fin 0], c = [Fin 0], precomp = [0], G32 = ex_G \<rparr>"

definition ex_work1 :: work where
  "ex_work1 = \<lparr> lambda = [Fin 0], dlambda = [Fin 0], ulambda = replicate 12 (Fin 0),
                 B = [Fin (- 2)], c = [Fin (1 / 4)], precomp = [1], G32 = ex_G \<rparr>"

text \<open>
  A solver with 32769 bodies and the same constraint between the bodies 32768 and 1; the
  first index does not fit into sixteen bits.
\<close>

definition many_bodies :: nat where
  "many_bodies = 32769"

definition wide_state :: solver where
  "wide_state = add_call exact_rt ((ex_args (NumV NaN) (NumV PInf) 1)\<lparr> arg_body_i := 32768 \<rparr>)
                  (reset many_bodies ex_solver)"

text \<open>
  The same constraint without a lower bound, in a solver constructed with the iteration
  count zero; \<open>cfg_inside\<close> is the object inside \<open>solve\<close> with the velocity changes \<open>vs\<close>
  along x, and \<open>cfg_work\<close> the local arrays after the first touch.
\<close>

definition cfg_state :: solver where
  "cfg_state = add_call exact_rt (ex_args (NumV NaN) (NumV PInf) 1)
     (reset 2 (Solver exact_rt (Fin 1) (Fin 1) (Fin 2) (Fin 0) (Fin 0) (Some 0) (Some (Fin 1))))"

definition cfg_inside :: "number list \<Rightarrow> solver" where
  "cfg_inside vs =
     \<lparr> iterations = 10, h = Fin 1, a = Fin 1, b = Fin 1, eps = Fin 2, k = Fin 0, d = Fin 0,
       G = ex_G, MinvTrace = replicate 12 (Fin 1), Fext = replicate 12 (Fin 0), q = ex_G,
       qdot = replicate 12 (Fin 0), n = 1, upper = [NumV PInf], lower = [NumV NaN],
       hasupper = [True], haslower = [False],
       i = Int16Array [0], j = [1],
       vxlambda = vs, vylambda = [Fin 0, Fin 0], vzlambda = [Fin 0, Fin 0],
       wxlambda = [Fin 0, Fin 0], wylambda = [Fin 0, Fin 0], wzlambda = [Fin 0, Fin 0],
       debug = False \<rparr>"

definition cfg_work :: "number \<Rightarrow> work" where
  "cfg_work dl = ex_work1\<lparr> dlambda := [dl], lambda := [Fin (- (1 / 2))] \<rparr>"

section \<open>Auxiliary facts\<close>

subsection \<open>Numbers\<close>

lemma num_ge_not_lt: "num_ge u v \<Longrightarrow> \<not> num_lt u v"
  by (cases u; cases v) auto

lemma map_num_at: "map (num_at xs) [0..<length xs] = xs"
proof -
  have "map (num_at xs) [0..<length xs] = map ((!) xs) [0..<length xs]"
    by (rule map_cong) (simp_all add: num_at_def)
  then show ?thesis
    by (simp add: map_nth)
qed

lemma map_num_at_12: "length xs = 12 \<Longrightarrow> map (num_at xs) [0..<12] = xs"
  using map_num_at [of xs] by simp

lemma num_at_update:
  "num_at (xs[m := v]) l = (if l = m \<and> m < length xs then v else num_at xs l)"
  by (simp add: num_at_def)

lemma num_at_past: "\<not> l < length xs \<Longrightarrow> num_at xs l = NaN"
  by (simp add: num_at_def)

lemma to_int16_id: "- 32768 \<le> v \<Longrightarrow> v < 32768 \<Longrightarrow> to_int16 v = v"
  by (simp add: to_int16_def)

subsection \<open>The accumulator\<close>

lemma fold_push_slot:
  "fold (push_slot Ga Ma qa qda Fa) ixs s =
     s\<lparr> q := q s @ map (num_at qa) ixs,
        qdot := qdot s @ map (num_at qda) ixs,
        MinvTrace := MinvTrace s @ map (num_at Ma) ixs,
        G := G s @ map (num_at Ga) ixs,
        Fext := Fext s @ map (num_at Fa) ixs \<rparr>"
  by (induction ixs arbitrary: s) (simp_all add: push_slot_def)

lemma addConstraint_plain:
  assumes "i s = Plain xs"
  shows "addConstraint rt Ga Ma qa qda Fa lo up body_i body_j s =
     (Inr (n s),
      s\<lparr> q := q s @ map (num_at qa) [0..<12],
         qdot := qdot s @ map (num_at qda) [0..<12],
         MinvTrace := MinvTrace s @ map (num_at Ma) [0..<12],
         G := G s @ map (num_at Ga) [0..<12],
         Fext := Fext s @ map (num_at Fa) [0..<12],
         upper := upper s @ [up],
         hasupper := hasupper s @ [\<not> isNaN rt up],
         lower := lower s @ [lo],
         haslower := haslower s @ [\<not> isNaN rt lo],
         i := Plain (xs @ [body_i]), j := j s @ [body_j], n := n s + 1 \<rparr>)"
  using assms unfolding addConstraint_def fold_push_slot push_bounds_def
  by (simp add: Let_def)

lemma addConstraint_typed:
  assumes "i s = Int16Array xs"
  shows "addConstraint rt Ga Ma qa qda Fa lo up body_i body_j s =
     (Inl TypeError,
      s\<lparr> q := q s @ map (num_at qa) [0..<12],
         qdot := qdot s @ map (num_at qda) [0..<12],
         MinvTrace := MinvTrace s @ map (num_at Ma) [0..<12],
         G := G s @ map (num_at Ga) [0..<12],
         Fext := Fext s @ map (num_at Fa) [0..<12],
         upper := upper s @ [up],
         hasupper := hasupper s @ [\<not> isNaN rt up],
         lower := lower s @ [lo],
         haslower := haslower s @ [\<not> isNaN rt lo] \<rparr>)"
  using assms unfolding addConstraint_def fold_push_slot push_bounds_def
  by (simp add: Let_def)

lemma lengths_ok_reset: "lengths_ok (reset nb s)"
  by (simp add: lengths_ok_def reset_def)

lemma lengths_ok_addConstraint:
  "lengths_ok s \<Longrightarrow> is_plain (i s) \<Longrightarrow>
   lengths_ok (snd (addConstraint rt Ga Ma qa qda Fa lo up body_i body_j s))"
  by (cases "i s") (simp_all add: addConstraint_plain lengths_ok_def)

lemma is_plain_addConstraint:
  "is_plain (i s) \<Longrightarrow> is_plain (i (snd (addConstraint rt Ga Ma qa qda Fa lo up body_i body_j s)))"
  by (cases "i s") (simp_all add: addConstraint_plain)

lemma add_calls_ok:
  "lengths_ok s \<Longrightarrow> is_plain (i s) \<Longrightarrow> lengths_ok (add_calls rt cas s) \<and> is_plain (i (add_calls rt cas s))"
  unfolding add_calls_def
  by (induction cas arbitrary: s) (simp_all add: add_call_def lengths_ok_addConstraint is_plain_addConstraint)


lemma lengths_ok_addNonPenetrationConstraint:
  assumes "lengths_ok s" and "is_plain (i s)"
  shows "lengths_ok (snd (addNonPenetrationConstraint rt bi bj xi xj ni ri rj iMi iMj iIi iIj
                            vi vj wi wj fi fj taui tauj s))"
proof (cases "num_lt (dot rt (vsub rt (vadd rt xj rj) (vadd rt xi ri)) ni) (Fin 0)")
  case True
  obtain xs where xs: "i s = Plain xs"
    using assms(2) by (cases "i s") simp_all
  show ?thesis
    using True assms(1) xs
    by (simp add: addNonPenetrationConstraint_def Let_def addConstraint_plain [OF xs] lengths_ok_def)
next
  case False
  then show ?thesis
    using assms(1) by (simp add: addNonPenetrationConstraint_def Let_def)
qed

lemma add_call_frame:
  "iterations (add_call rt ca s) = iterations s \<and>
   vxlambda (add_call rt ca s) = vxlambda s \<and> vylambda (add_call rt ca s) = vylambda s \<and>
   vzlambda (add_call rt ca s) = vzlambda s \<and> wxlambda (add_call rt ca s) = wxlambda s \<and>
   wylambda (add_call rt ca s) = wylambda s \<and> wzlambda (add_call rt ca s) = wzlambda s"
  by (cases "i s") (simp_all add: add_call_def addConstraint_plain addConstraint_typed)

lemma add_calls_frame:
  "iterations (add_calls rt cas s) = iterations s \<and>
   vxlambda (add_calls rt cas s) = vxlambda s \<and> vylambda (add_calls rt cas s) = vylambda s \<and>
   vzlambda (add_calls rt cas s) = vzlambda s \<and> wxlambda (add_calls rt cas s) = wxlambda s \<and>
   wylambda (add_calls rt cas s) = wylambda s \<and> wzlambda (add_calls rt cas s) = wzlambda s"
  unfolding add_calls_def
  by (induction cas arbitrary: s) (simp_all add: add_call_frame)

lemma addConstraint_pushed:
  "G (snd (addConstraint rt Ga Ma qa qda Fa lo up body_i body_j s)) = G s @ map (num_at Ga) [0..<12] \<and>
   q (snd (addConstraint rt Ga Ma qa qda Fa lo up body_i body_j s)) = q s @ map (num_at qa) [0..<12] \<and>
   lower (snd (addConstraint rt Ga Ma qa qda Fa lo up body_i body_j s)) = lower s @ [lo] \<and>
   upper (snd (addConstraint rt Ga Ma qa qda Fa lo up body_i body_j s)) = upper s @ [up] \<and>
   haslower (snd (addConstraint rt Ga Ma qa qda Fa lo up body_i body_j s))
     = haslower s @ [\<not> isNaN rt lo] \<and>
   hasupper (snd (addConstraint rt Ga Ma qa qda Fa lo up body_i body_j s))
     = hasupper s @ [\<not> isNaN rt up]"
  by (cases "i s") (simp_all add: addConstraint_plain addConstraint_typed)

lemma length_row12: "length (row12 p1 p2 p3 p4) = 12"
  by (simp add: row12_def)

lemma addNonPenetrationConstraint_call:
  assumes "num_lt (dot rt (contact_q rt xi xj ri rj) ni) (Fin 0)"
  shows "addNonPenetrationConstraint rt bi bj xi xj ni ri rj iMi iMj iIi iIj
           vi vj wi wj fi fj taui tauj s =
           (case addConstraint rt
                   (row12 (vneg ni) (vneg (cross rt ri ni)) ni (cross rt ri ni))
                   [vx iMi, vy iMi, vz iMi, vz iIi, vy iIi, vz iIi,
                    vx iMj, vy iMj, vz iMj, vz iIj, vy iIj, vz iIj]
                   (row12 (vneg (contact_q rt xi xj ri rj)) zero3 (contact_q rt xi xj ri rj) zero3)
                   (row12 (vneg (vsub rt vj vi)) zero3 (vsub rt vj vi) zero3)
                   (row12 fi taui fj tauj)
                   (NumV (Fin 0)) (StrV ''inf'') bi bj s of
              (Inl e, s') \<Rightarrow> (Inl e, s')
            | (Inr r, s') \<Rightarrow> (Inr (), s'))"
  using assms
  by (simp add: addNonPenetrationConstraint_def Let_def contact_q_def row12_def vneg_def zero3_def)

lemma addNonPenetrationConstraint_pushed:
  assumes "num_lt (dot rt (contact_q rt xi xj ri rj) ni) (Fin 0)"
  shows "G (snd (addNonPenetrationConstraint rt bi bj xi xj ni ri rj iMi iMj iIi iIj
                   vi vj wi wj fi fj taui tauj s))
           = G s @ row12 (vneg ni) (vneg (cross rt ri ni)) ni (cross rt ri ni) \<and>
         q (snd (addNonPenetrationConstraint rt bi bj xi xj ni ri rj iMi iMj iIi iIj
                   vi vj wi wj fi fj taui tauj s))
           = q s @ row12 (vneg (contact_q rt xi xj ri rj)) zero3 (contact_q rt xi xj ri rj) zero3 \<and>
         lower (snd (addNonPenetrationConstraint rt bi bj xi xj ni ri rj iMi iMj iIi iIj
                   vi vj wi wj fi fj taui tauj s)) = lower s @ [NumV (Fin 0)] \<and>
         upper (snd (addNonPenetrationConstraint rt bi bj xi xj ni ri rj iMi iMj iIi iIj
                   vi vj wi wj fi fj taui tauj s)) = upper s @ [StrV ''inf''] \<and>
         haslower (snd (addNonPenetrationConstraint rt bi bj xi xj ni ri rj iMi iMj iIi iIj
                   vi vj wi wj fi fj taui tauj s)) = haslower s @ [True] \<and>
         hasupper (snd (addNonPenetrationConstraint rt bi bj xi xj ni ri rj iMi iMj iIi iIj
                   vi vj wi wj fi fj taui tauj s)) = hasupper s @ [str2num rt ''inf'' \<noteq> NaN]"
proof -
  let ?add = "addConstraint rt
                   (row12 (vneg ni) (vneg (cross rt ri ni)) ni (cross rt ri ni))
                   [vx iMi, vy iMi, vz iMi, vz iIi, vy iIi, vz iIi,
                    vx iMj, vy iMj, vz iMj, vz iIj, vy iIj, vz iIj]
                   (row12 (vneg (contact_q rt xi xj ri rj)) zero3 (contact_q rt xi xj ri rj) zero3)
                   (row12 (vneg (vsub rt vj vi)) zero3 (vsub rt vj vi) zero3)
                   (row12 fi taui fj tauj)
                   (NumV (Fin 0)) (StrV ''inf'') bi bj s"
  have snd_call: "snd (addNonPenetrationConstraint rt bi bj xi xj ni ri rj iMi iMj iIi iIj
                vi vj wi wj fi fj taui tauj s) = snd ?add"
    unfolding addNonPenetrationConstraint_call [OF assms]
    by (simp split: prod.splits sum.splits)
  show ?thesis
    unfolding snd_call
    using addConstraint_pushed [of rt _ _ _ _ _ "NumV (Fin 0)" "StrV ''inf''" bi bj s]
    by (simp add: map_num_at_12 length_row12 isNaN_def)
qed

lemma Solver_iterations_default: "iterations (Solver rt a0 b0 eps0 k0 d0 (Some 0) h0) = 10"
  by (simp add: Solver_def reset_def)

subsection \<open>The frame of the solver\<close>

lemma same_constraints_refl: "same_constraints s s"
  by (simp add: same_constraints_def)

lemma same_constraints_trans:
  "same_constraints s t \<Longrightarrow> same_constraints t u \<Longrightarrow> same_constraints s u"
  by (simp add: same_constraints_def)

lemma length_body_add: "length (body_add rt xs body v) = length xs"
  by (simp add: body_add_def)

lemma same_constraints_propagate: "same_constraints s (propagate rt l w s)"
  by (simp add: same_constraints_def propagate_def Let_def length_body_add)

lemma same_constraints_solve_body: "same_constraints (fst st) (fst (solve_body rt l st))"
  by (cases st) (simp add: solve_body_def Let_def same_constraints_propagate)

lemma same_constraints_fold:
  "same_constraints (fst st) (fst (fold (solve_body rt) ls st))"
proof (induction ls arbitrary: st)
  case Nil
  show ?case by (simp add: same_constraints_refl)
next
  case (Cons l ls)
  have "same_constraints (fst st) (fst (solve_body rt l st))"
    by (rule same_constraints_solve_body)
  moreover have "same_constraints (fst (solve_body rt l st)) (fst (fold (solve_body rt) ls (solve_body rt l st)))"
    by (rule Cons.IH)
  ultimately show ?case
    using same_constraints_trans by fastforce
qed

lemma funpow_sweep:
  "(sweep rt m ^^ r) st = fold (solve_body rt) (concat (replicate r [0..<m])) st"
proof (induction r arbitrary: st)
  case 0
  show ?case by simp
next
  case (Suc r)
  have "(sweep rt m ^^ Suc r) st = (sweep rt m ^^ r) (sweep rt m st)"
    by (simp add: funpow_swap1)
  also have "\<dots> = fold (solve_body rt) (concat (replicate r [0..<m])) (sweep rt m st)"
    by (rule Suc.IH)
  also have "\<dots> = fold (solve_body rt) (concat (replicate (Suc r) [0..<m])) st"
    by (simp add: sweep_def)
  finally show ?case .
qed

lemma fst_solve_start:
  "fst (solve_start rt s) = s\<lparr> i := Int16Array (map to_int16 (elems (i s))) \<rparr>"
  by (simp add: solve_start_def Let_def)

lemma snd_solve_start:
  "snd (solve_start rt s) = init_work rt (s\<lparr> i := Int16Array (map to_int16 (elems (i s))) \<rparr>)"
  by (simp add: solve_start_def Let_def)

lemma solve_state_fold:
  "solve_state rt s =
     fold (solve_body rt) (concat (replicate (nat (iterations s)) [0..<n s])) (solve_start rt s)"
  by (simp add: solve_state_def Let_def funpow_sweep fst_solve_start)

lemma same_constraints_solve_state:
  "same_constraints (fst (solve_start rt s)) (fst (solve_state rt s))"
  unfolding solve_state_fold by (rule same_constraints_fold)

lemma lengths_ok_solve: "lengths_ok s \<Longrightarrow> lengths_ok (solve rt s)"
  using same_constraints_solve_state [of rt s]
  by (simp add: solve_def same_constraints_def lengths_ok_def fst_solve_start)


lemma solve_no_sweep:
  assumes "iterations s \<le> 0"
  shows "solve_state rt s = solve_start rt s"
  using assms by (simp add: solve_state_def Let_def fst_solve_start)

subsection \<open>The flags of the upper bounds are never read\<close>

lemma precomp_slot_hasupper:
  "precomp_slot rt (s\<lparr> hasupper := fl \<rparr>) w l12 = precomp_slot rt s w l12"
  by (intro ext) (simp add: precomp_slot_def)

lemma precompute_hasupper: "precompute rt (s\<lparr> hasupper := fl \<rparr>) l w = precompute rt s l w"
  by (simp add: precompute_def precomp_slot_hasupper)

lemma Gulambda_hasupper: "Gulambda rt (s\<lparr> hasupper := fl \<rparr>) w l = Gulambda rt s w l"
  by (simp add: Gulambda_def)

lemma update_lambda_hasupper:
  "update_lambda rt (s\<lparr> hasupper := fl \<rparr>) l w = update_lambda rt s l w"
  by (simp add: update_lambda_def Gulambda_hasupper)

lemma clamp_lower_hasupper: "clamp_lower rt (s\<lparr> hasupper := fl \<rparr>) l w = clamp_lower rt s l w"
  by (simp add: clamp_lower_def lower_fires_def)

lemma clamp_upper_hasupper: "clamp_upper rt (s\<lparr> hasupper := fl \<rparr>) l w = clamp_upper rt s l w"
  by (simp add: clamp_upper_def upper_fires_def truthy_object_def)

lemma propagate_hasupper:
  "propagate rt l w (s\<lparr> hasupper := fl \<rparr>) = (propagate rt l w s)\<lparr> hasupper := fl \<rparr>"
  by (simp add: propagate_def Let_def slot_delta_def)

lemma solve_body_hasupper:
  "solve_body rt l (s\<lparr> hasupper := fl \<rparr>, w) =
     (case solve_body rt l (s, w) of (t, w') \<Rightarrow> (t\<lparr> hasupper := fl \<rparr>, w'))"
  by (simp add: solve_body_def Let_def precompute_hasupper update_lambda_hasupper
        clamp_lower_hasupper clamp_upper_hasupper propagate_hasupper)

lemma fold_solve_body_hasupper:
  "fold (solve_body rt) ls (s\<lparr> hasupper := fl \<rparr>, w) =
     (case fold (solve_body rt) ls (s, w) of (t, w') \<Rightarrow> (t\<lparr> hasupper := fl \<rparr>, w'))"
proof (induction ls arbitrary: s w)
  case Nil
  show ?case by simp
next
  case (Cons l ls)
  obtain t w' where b: "solve_body rt l (s, w) = (t, w')"
    by (cases "solve_body rt l (s, w)")
  show ?case
    by (simp add: solve_body_hasupper b Cons.IH)
qed

lemma solve_start_hasupper:
  "solve_start rt (s\<lparr> hasupper := fl \<rparr>) =
     (case solve_start rt s of (t, w') \<Rightarrow> (t\<lparr> hasupper := fl \<rparr>, w'))"
  by (simp add: solve_start_def Let_def init_work_def)

subsection \<open>The body of the inner loop\<close>

lemma snd_solve_body:
  "snd (solve_body rt l (s, w)) =
     clamp_upper rt s l (clamp_lower rt s l (update_lambda rt s l (precompute rt s l w)))"
  by (simp add: solve_body_def Let_def)

lemma fst_solve_body:
  "fst (solve_body rt l (s, w)) = propagate rt l (snd (solve_body rt l (s, w))) s"
  by (simp add: solve_body_def Let_def)

lemma lambda_precompute: "lambda (precompute rt s l w) = lambda w"
  by (simp add: precompute_def split: prod.splits)

lemma lambda_update_lambda:
  "num_at (lambda (update_lambda rt s m w)) l = num_at (lambda w) l" if "l \<noteq> m"
  using that by (simp add: update_lambda_def Let_def num_at_update)

lemma lambda_clamp_to:
  "lambda (clamp_to rt bd m w) = (lambda w)[m := f32 rt (toNumber rt bd)]"
  by (simp add: clamp_to_def Let_def)

lemma propagate_vxlambda:
  "vxlambda (propagate rt l w s) =
     body_add rt (body_add rt (vxlambda s) (index_at (elems (i s)) l) (slot_delta rt s w l 0))
       (index_at (j s) l) (slot_delta rt s w l 6)"
  by (simp add: propagate_def Let_def)

subsection \<open>The impulse of a constraint bounded below by zero\<close>

lemma not_negative_other:
  assumes "l \<noteq> m" and "not_negative l w"
  shows "not_negative l (snd (solve_body rt m (t, w)))"
  using assms
  by (simp add: not_negative_def snd_solve_body clamp_upper_def clamp_lower_def lambda_clamp_to
        num_at_update lambda_update_lambda lambda_precompute)

lemma not_negative_lower:
  assumes "flag_at (haslower t) l" and "toNumber rt (bound_at (lower t) l) = Fin 0"
    and "round32 rt 0 = Fin 0"
  shows "not_negative l (clamp_lower rt t l w)"
  using assms
  by (auto simp add: not_negative_def clamp_lower_def lower_fires_def lambda_clamp_to num_at_update
        num_at_past)

lemma not_negative_upper:
  assumes "\<not> num_lt (f32 rt (toNumber rt (bound_at (upper t) l))) (Fin 0)"
    and "not_negative l w"
  shows "not_negative l (clamp_upper rt t l w)"
  using assms
  by (simp add: not_negative_def clamp_upper_def lambda_clamp_to num_at_update)

lemma not_negative_body:
  assumes "flag_at (haslower t) l" and "toNumber rt (bound_at (lower t) l) = Fin 0"
    and "\<not> num_lt (f32 rt (toNumber rt (bound_at (upper t) l))) (Fin 0)"
    and "round32 rt 0 = Fin 0"
    and "not_negative l w"
  shows "not_negative l (snd (solve_body rt m (t, w)))"
proof (cases "l = m")
  case True
  show ?thesis
    unfolding snd_solve_body True [symmetric]
    by (intro not_negative_upper not_negative_lower assms)
next
  case False
  then show ?thesis
    by (rule not_negative_other) (rule assms)
qed

lemma not_negative_fold:
  assumes "flag_at (haslower s) l" and "toNumber rt (bound_at (lower s) l) = Fin 0"
    and "\<not> num_lt (f32 rt (toNumber rt (bound_at (upper s) l))) (Fin 0)"
    and "round32 rt 0 = Fin 0"
  shows "same_constraints s (fst st) \<Longrightarrow> not_negative l (snd st) \<Longrightarrow>
         not_negative l (snd (fold (solve_body rt) ls st))"
proof (induction ls arbitrary: st)
  case Nil
  then show ?case by simp
next
  case (Cons m ls)
  obtain t w where st: "st = (t, w)"
    by (cases st)
  have c: "same_constraints s t"
    using Cons.prems(1) st by simp
  have "same_constraints t (fst (solve_body rt m (t, w)))"
    using same_constraints_solve_body [of "(t, w)"] by simp
  then have c': "same_constraints s (fst (solve_body rt m st))"
    using c st same_constraints_trans by blast
  have "not_negative l (snd (solve_body rt m (t, w)))"
    using assms c Cons.prems(2) st
    by (intro not_negative_body) (simp_all add: same_constraints_def)
  then show ?case
    using Cons.IH [OF c'] st by simp
qed

subsection \<open>A clamp to an exact bound\<close>

lemma snd_solve_body_clamped:
  "snd (solve_body rt l (s, w)) = clamp_upper rt s l (lower_clamped rt s l w)"
  by (simp add: snd_solve_body lower_clamped_def updated_def)

lemma precompute_frame:
  "lambda (precompute rt s l w) = lambda w \<and> dlambda (precompute rt s l w) = dlambda w \<and>
   G32 (precompute rt s l w) = G32 w"
  by (simp add: precompute_def split: prod.splits)

lemma update_lambda_frame:
  "length (lambda (update_lambda rt s l w)) = length (lambda w) \<and>
   length (dlambda (update_lambda rt s l w)) = length (dlambda w) \<and>
   G32 (update_lambda rt s l w) = G32 w"
  by (simp add: update_lambda_def Let_def)

lemma clamp_to_frame:
  "length (lambda (clamp_to rt bd l w)) = length (lambda w) \<and>
   length (dlambda (clamp_to rt bd l w)) = length (dlambda w) \<and>
   G32 (clamp_to rt bd l w) = G32 w"
  by (simp add: clamp_to_def Let_def)

lemma updated_frame:
  "length (lambda (updated rt s l w)) = length (lambda w) \<and>
   length (dlambda (updated rt s l w)) = length (dlambda w) \<and>
   G32 (updated rt s l w) = G32 w"
  by (simp add: updated_def update_lambda_frame precompute_frame)

lemma lower_clamped_frame:
  "length (lambda (lower_clamped rt s l w)) = length (lambda w) \<and>
   length (dlambda (lower_clamped rt s l w)) = length (dlambda w) \<and>
   G32 (lower_clamped rt s l w) = G32 w"
  by (simp add: lower_clamped_def clamp_lower_def clamp_to_frame updated_frame)

lemma clamp_upper_frame:
  "G32 (clamp_upper rt s l w) = G32 w"
  by (simp add: clamp_upper_def clamp_to_frame)

lemma clamp_to_exact:
  assumes "round64 rt 0 = Fin 0" and "round32 rt 0 = Fin 0"
    and "exact32 rt (toNumber rt bd)"
    and "l < length (lambda w)" and "l < length (dlambda w)"
  shows "num_at (lambda (clamp_to rt bd l w)) l = toNumber rt bd \<and>
         num_at (dlambda (clamp_to rt bd l w)) l = Fin 0"
proof -
  obtain r where r: "toNumber rt bd = Fin r" "round32 rt r = Fin r"
    using assms(3) by (cases "toNumber rt bd") (simp_all add: exact32_def)
  show ?thesis
    using assms(1,2,4,5) r by (simp add: clamp_to_def Let_def num_at_def num_sub_def)
qed

lemma slot_delta_zero:
  assumes "round64 rt 0 = Fin 0"
    and "num_at (dlambda w) l = Fin 0"
    and "is_fin (num_at (MinvTrace s) (12 * l + off))"
    and "is_fin (num_at (G32 w) (12 * l + off))"
  shows "slot_delta rt s w l off = Fin 0"
proof -
  obtain m where m: "num_at (MinvTrace s) (12 * l + off) = Fin m"
    using assms(3) by (cases "num_at (MinvTrace s) (12 * l + off)") (simp_all add: is_fin_def)
  obtain g where g: "num_at (G32 w) (12 * l + off) = Fin g"
    using assms(4) by (cases "num_at (G32 w) (12 * l + off)") (simp_all add: is_fin_def)
  show ?thesis
    using assms(1,2) by (simp add: slot_delta_def m g)
qed

lemma body_add_zero:
  assumes "list_all (stable rt) xs"
  shows "body_add rt xs body (Fin 0) = xs"
proof (cases "in_range xs body")
  case True
  then obtain v where v: "body = Some v" "0 \<le> v" "v < int (length xs)"
    by (cases body) (simp_all add: in_range_def)
  then have "nat v < length xs"
    by simp
  then have "stable rt (xs ! nat v)"
    using assms by (simp add: list_all_length)
  then show ?thesis
    using True v by (simp add: body_add_def stable_def)
next
  case False
  then show ?thesis
    by (simp add: body_add_def)
qed

lemma propagate_zero:
  assumes "round64 rt 0 = Fin 0"
    and "num_at (dlambda w) l = Fin 0"
    and "slots_finite s w l"
    and "deltas_stable rt s"
  shows "propagate rt l w s = s"
proof -
  have fin: "is_fin (num_at (MinvTrace s) (12 * l + off)) \<and> is_fin (num_at (G32 w) (12 * l + off))"
    if "off < 12" for off
    using assms(3) that by (simp add: slots_finite_def list_all_iff)
  have sd: "slot_delta rt s w l off = Fin 0" if "off < 12" for off
    using fin [OF that] by (simp add: slot_delta_zero [OF assms(1,2)])
  have ba: "body_add rt (vxlambda s) body (Fin 0) = vxlambda s"
    "body_add rt (vylambda s) body (Fin 0) = vylambda s"
    "body_add rt (vzlambda s) body (Fin 0) = vzlambda s"
    "body_add rt (wxlambda s) body (Fin 0) = wxlambda s"
    "body_add rt (wylambda s) body (Fin 0) = wylambda s"
    "body_add rt (wzlambda s) body (Fin 0) = wzlambda s" for body
    using assms(4) by (simp_all add: deltas_stable_def body_add_zero)
  show ?thesis
    by (simp add: propagate_def Let_def sd ba)
qed

subsection \<open>The cache of the precomputed constants\<close>

lemma num_at_map_f32: "num_at (map (f32 rt) xs) ix = f32 rt (num_at xs ix)"
  by (simp add: num_at_def)

lemma fold_precomp_slot:
  assumes "G32 w = map (f32 rt) (G s)"
  shows "fold (precomp_slot rt s w (12 * l)) sls (a1, a2, a3, a4) =
     (foldl (num_add rt) a1
        (map (\<lambda>sl. num_mul rt (num_mul rt (slot_G rt s l sl) (num_at (MinvTrace s) (12 * l + sl)))
                               (slot_G rt s l sl)) sls),
      foldl (num_add rt) a2
        (map (\<lambda>sl. num_mul rt (slot_G rt s l sl) (num_at (q s) (12 * l + sl))) sls),
      foldl (num_add rt) a3
        (map (\<lambda>sl. num_mul rt (slot_G rt s l sl) (num_at (qdot s) (12 * l + sl))) sls),
      foldl (num_add rt) a4
        (map (\<lambda>sl. num_mul rt (num_mul rt (slot_G rt s l sl) (num_at (MinvTrace s) (12 * l + sl)))
                               (num_at (Fext s) (12 * l + sl))) sls))"
proof (induction sls arbitrary: a1 a2 a3 a4)
  case Nil
  show ?case by simp
next
  case (Cons sl sls)
  have step: "precomp_slot rt s w (12 * l) sl (a1, a2, a3, a4) =
     (num_add rt a1 (num_mul rt (num_mul rt (slot_G rt s l sl) (num_at (MinvTrace s) (12 * l + sl)))
                               (slot_G rt s l sl)),
      num_add rt a2 (num_mul rt (slot_G rt s l sl) (num_at (q s) (12 * l + sl))),
      num_add rt a3 (num_mul rt (slot_G rt s l sl) (num_at (qdot s) (12 * l + sl))),
      num_add rt a4 (num_mul rt (num_mul rt (slot_G rt s l sl) (num_at (MinvTrace s) (12 * l + sl)))
                               (num_at (Fext s) (12 * l + sl))))"
    by (simp add: precomp_slot_def Let_def assms num_at_map_f32 slot_G_def)
  show ?case
    by (simp add: step Cons.IH)
qed

lemma precompute_fresh:
  assumes "G32 w = map (f32 rt) (G s)" and "num_at_int (precomp w) l = 0"
  shows "precompute rt s l w =
           w\<lparr> c := (c w)[l := effectiveInverseMass rt s l],
              B := (B w)[l := biasTerm rt s l],
              precomp := (precomp w)[l := 1] \<rparr>"
  using assms(2)
  by (simp add: precompute_def fold_precomp_slot [OF assms(1)] effectiveInverseMass_def biasTerm_def
        G_Minv_Gt_def Gq_def GW_def GMinvf_def sum12_def)

lemma precompute_cached:
  assumes "num_at_int (precomp w) l \<noteq> 0"
  shows "precompute rt s l w = w"
  using assms by (simp add: precompute_def)

lemma num_at_int_update:
  "num_at_int (xs[m := v]) l = (if l = m \<and> m < length xs then v else num_at_int xs l)"
  by (simp add: num_at_int_def)

lemma cache_ok_precompute:
  assumes "cache_ok rt s w"
  shows "cache_ok rt s (precompute rt s m w)"
proof (cases "num_at_int (precomp w) m = 0")
  case True
  have g: "G32 w = map (f32 rt) (G s)"
    using assms by (simp add: cache_ok_def)
  show ?thesis
    using assms
    unfolding precompute_fresh [OF g True]
    by (auto simp add: cache_ok_def list_all_iff num_at_update num_at_int_update)
next
  case False
  then show ?thesis
    using assms by (simp add: precompute_cached)
qed

lemma cache_value:
  assumes "cache_ok rt s w" and "l < n s"
  shows "num_at (c (precompute rt s l w)) l = effectiveInverseMass rt s l \<and>
         num_at (B (precompute rt s l w)) l = biasTerm rt s l"
proof (cases "num_at_int (precomp w) l = 0")
  case True
  have g: "G32 w = map (f32 rt) (G s)"
    using assms by (simp add: cache_ok_def)
  show ?thesis
    using assms
    unfolding precompute_fresh [OF g True]
    by (simp add: cache_ok_def num_at_update)
next
  case False
  then show ?thesis
    using assms by (simp add: precompute_cached cache_ok_def list_all_iff)
qed


lemma precomp_slot_cong:
  assumes "same_constraints s t"
  shows "precomp_slot rt t w l12 = precomp_slot rt s w l12"
  using assms by (intro ext) (simp add: precomp_slot_def same_constraints_def)

lemma precompute_cong:
  assumes "same_constraints s t"
  shows "precompute rt t l w = precompute rt s l w"
  using assms by (simp add: precompute_def precomp_slot_cong [OF assms] same_constraints_def)

lemma cache_ok_update_lambda: "cache_ok rt s w \<Longrightarrow> cache_ok rt s (update_lambda rt t m w)"
  by (simp add: cache_ok_def update_lambda_def Let_def)

lemma cache_ok_clamp_to: "cache_ok rt s w \<Longrightarrow> cache_ok rt s (clamp_to rt bd m w)"
  by (simp add: cache_ok_def clamp_to_def Let_def)

lemma cache_ok_body:
  assumes "same_constraints s t" and "cache_ok rt s w"
  shows "cache_ok rt s (snd (solve_body rt m (t, w)))"
  using assms(2)
  by (simp add: snd_solve_body clamp_upper_def clamp_lower_def cache_ok_clamp_to
        cache_ok_update_lambda cache_ok_precompute precompute_cong [OF assms(1)])

lemma cache_ok_fold:
  "same_constraints s (fst st) \<Longrightarrow> cache_ok rt s (snd st) \<Longrightarrow>
   cache_ok rt s (snd (fold (solve_body rt) ls st))"
proof (induction ls arbitrary: st)
  case Nil
  then show ?case by simp
next
  case (Cons m ls)
  obtain t w where st: "st = (t, w)"
    by (cases st)
  have sc: "same_constraints s t"
    using Cons.prems(1) st by simp
  have "same_constraints t (fst (solve_body rt m (t, w)))"
    using same_constraints_solve_body [of "(t, w)"] by simp
  then have sc': "same_constraints s (fst (solve_body rt m st))"
    using sc st same_constraints_trans by blast
  have "cache_ok rt s (snd (solve_body rt m st))"
    using cache_ok_body [OF sc] Cons.prems(2) st by simp
  then show ?case
    using Cons.IH [OF sc'] by simp
qed

lemma upt_12: "[0..<12] = [0, 1, 2, 3, 4, 5, 6, 7, 8, 9, 10, 11]"
  by (simp add: upt_rec)

lemma ex_state_eq:
  "ex_state lo up bj =
     \<lparr> iterations = 1, h = Fin 1, a = Fin 1, b = Fin 1, eps = Fin 2, k = Fin 0, d = Fin 0,
       G = ex_G, MinvTrace = replicate 12 (Fin 1), Fext = replicate 12 (Fin 0), q = ex_G,
       qdot = replicate 12 (Fin 0), n = 1, upper = [up], lower = [lo],
       hasupper = [\<not> isNaN exact_rt up], haslower = [\<not> isNaN exact_rt lo],
       i = Plain [0], j = [bj],
       vxlambda = [Fin 0, Fin 0], vylambda = [Fin 0, Fin 0], vzlambda = [Fin 0, Fin 0],
       wxlambda = [Fin 0, Fin 0], wylambda = [Fin 0, Fin 0], wzlambda = [Fin 0, Fin 0],
       debug = False \<rparr>"
proof -
  have p: "i (reset 2 ex_solver) = Plain []"
    by (simp add: reset_def)
  have l: "length ex_G = 12"
    by (simp add: ex_G_def)
  show ?thesis
    unfolding ex_state_def add_call_def addConstraint_plain [OF p]
    by (simp add: ex_args_def map_num_at_12 l reset_def ex_solver_def Solver_def numeral_2_eq_2 falsy_num_def)
qed


lemma ex_inside_eq:
  "ex_inside lo up bj =
     \<lparr> iterations = 1, h = Fin 1, a = Fin 1, b = Fin 1, eps = Fin 2, k = Fin 0, d = Fin 0,
       G = ex_G, MinvTrace = replicate 12 (Fin 1), Fext = replicate 12 (Fin 0), q = ex_G,
       qdot = replicate 12 (Fin 0), n = 1, upper = [up], lower = [lo],
       hasupper = [\<not> isNaN exact_rt up], haslower = [\<not> isNaN exact_rt lo],
       i = Int16Array [0], j = [bj],
       vxlambda = [Fin 0, Fin 0], vylambda = [Fin 0, Fin 0], vzlambda = [Fin 0, Fin 0],
       wxlambda = [Fin 0, Fin 0], wylambda = [Fin 0, Fin 0], wzlambda = [Fin 0, Fin 0],
       debug = False \<rparr>"
  by (simp add: ex_inside_def ex_state_eq)

lemma ex_start:
  "solve_start exact_rt (ex_state lo up bj) = (ex_inside lo up bj, ex_work)"
  by (simp add: solve_start_def Let_def ex_state_eq ex_inside_eq init_work_def to_int16_def
        exact_rt_def ex_G_def ex_work_def)

lemma ex_precompute:
  "precompute exact_rt (ex_inside lo up bj) 0 ex_work = ex_work1"
  by (simp add: precompute_def num_at_int_def ex_inside_eq upt_rec precomp_slot_def num_at_def
        ex_G_def exact_rt_def num_sub_def ex_work_def ex_work1_def)

lemma ex_solve_state:
  "solve_state exact_rt (ex_state lo up bj) = solve_body exact_rt 0 (ex_inside lo up bj, ex_work)"
  by (simp add: solve_state_fold ex_start) (simp add: ex_state_eq)

lemma ex_Gulambda:
  "Gulambda exact_rt (ex_inside lo up 1) ex_work1 0 = Fin 0"
  by (simp add: Gulambda_def Let_def ex_inside_eq index_at_def body_at_def in_range_def num_at_def
        ex_work1_def ex_G_def exact_rt_def)

lemma ex_Gulambda_none:
  "Gulambda exact_rt (ex_inside lo up (- 1)) ex_work1 0 = NaN"
  by (simp add: Gulambda_def Let_def ex_inside_eq index_at_def body_at_def in_range_def num_at_def
        ex_work1_def ex_G_def exact_rt_def)

lemma ex_updated:
  "updated exact_rt (ex_inside lo up 1) 0 ex_work
     = ex_work1\<lparr> dlambda := [Fin (- 1 / 2)], lambda := [Fin (- 1 / 2)] \<rparr>"
  unfolding updated_def ex_precompute
  by (simp add: update_lambda_def ex_Gulambda Let_def)
     (simp add: ex_inside_eq ex_work1_def num_at_def exact_rt_def num_sub_def)

lemma ex_updated_none:
  "updated exact_rt (ex_inside lo up (- 1)) 0 ex_work
     = ex_work1\<lparr> dlambda := [NaN], lambda := [NaN] \<rparr>"
  unfolding updated_def ex_precompute
  by (simp add: update_lambda_def ex_Gulambda_none Let_def)
     (simp add: ex_inside_eq ex_work1_def num_at_def exact_rt_def num_sub_def)

lemma ex_lower_clamped:
  "lower_clamped exact_rt (ex_inside (NumV (Fin 0)) up 1) 0 ex_work
     = ex_work1\<lparr> dlambda := [Fin 0], lambda := [Fin 0] \<rparr>"
  unfolding lower_clamped_def ex_updated
  by (simp add: clamp_lower_def lower_fires_def clamp_to_def ex_inside_eq flag_at_def bound_at_def
        isNaN_def num_at_def exact_rt_def num_sub_def ex_work1_def)


subsection \<open>The update of the impulse\<close>

lemma Gulambda_Gu_at:
  "Gulambda rt s w l = Gu_at rt s w l (index_at (elems (i s)) l) (index_at (j s) l)"
  by (simp add: Gulambda_def Gu_at_def sum12_def Let_def upt_12 delta_at_def add.commute)

lemma index_at_map: "index_at (map f xs) l = map_option f (index_at xs l)"
  by (simp add: index_at_def)

lemma updated_values:
  assumes "l < length (lambda w)" and "l < length (dlambda w)"
  shows "num_at (dlambda (updated rt s l w)) l =
           f32 rt (num_mul rt (num_at (c (precompute rt s l w)) l)
             (num_sub rt (num_sub rt (num_at (B (precompute rt s l w)) l) (Gulambda rt s w l))
                (num_mul rt (eps s) (num_at (lambda w) l)))) \<and>
         num_at (lambda (updated rt s l w)) l =
           f32 rt (num_add rt (num_at (lambda w) l) (num_at (dlambda (updated rt s l w)) l))"
proof -
  have fr: "lambda (precompute rt s l w) = lambda w" "dlambda (precompute rt s l w) = dlambda w"
    "G32 (precompute rt s l w) = G32 w"
    by (simp_all add: precompute_frame)
  have g: "Gulambda rt s (precompute rt s l w) l = Gulambda rt s w l"
    by (simp add: Gulambda_def fr)
  show ?thesis
    using assms by (simp add: updated_def update_lambda_def Let_def num_at_update fr g)
qed

lemma cache_frame_update: "c (update_lambda rt s l w) = c w \<and> B (update_lambda rt s l w) = B w \<and>
    precomp (update_lambda rt s l w) = precomp w"
  by (simp add: update_lambda_def Let_def)

lemma cache_frame_clamp: "c (clamp_to rt bd l w) = c w \<and> B (clamp_to rt bd l w) = B w \<and>
    precomp (clamp_to rt bd l w) = precomp w"
  by (simp add: clamp_to_def Let_def)

lemma cache_frame_body:
  "c (snd (solve_body rt l (s, w))) = c (precompute rt s l w) \<and>
   B (snd (solve_body rt l (s, w))) = B (precompute rt s l w) \<and>
   precomp (snd (solve_body rt l (s, w))) = precomp (precompute rt s l w)"
  by (simp add: snd_solve_body clamp_upper_def clamp_lower_def cache_frame_clamp cache_frame_update)


lemma propagate_eq:
  "propagate rt l w s =
     s\<lparr> vxlambda := body_add rt (body_add rt (vxlambda s) (index_at (elems (i s)) l)
                        (slot_delta rt s w l 0)) (index_at (j s) l) (slot_delta rt s w l 6),
        vylambda := body_add rt (body_add rt (vylambda s) (index_at (elems (i s)) l)
                        (slot_delta rt s w l 1)) (index_at (j s) l) (slot_delta rt s w l 7),
        vzlambda := body_add rt (body_add rt (vzlambda s) (index_at (elems (i s)) l)
                        (slot_delta rt s w l 2)) (index_at (j s) l) (slot_delta rt s w l 8),
        wxlambda := body_add rt (body_add rt (wxlambda s) (index_at (elems (i s)) l)
                        (slot_delta rt s w l 3)) (index_at (j s) l) (slot_delta rt s w l 9),
        wylambda := body_add rt (body_add rt (wylambda s) (index_at (elems (i s)) l)
                        (slot_delta rt s w l 4)) (index_at (j s) l) (slot_delta rt s w l 10),
        wzlambda := body_add rt (body_add rt (wzlambda s) (index_at (elems (i s)) l)
                        (slot_delta rt s w l 5)) (index_at (j s) l) (slot_delta rt s w l 11) \<rparr>"
  by (simp add: propagate_def Let_def slot_delta_def)

lemma num_lt_PInf: "\<not> num_lt PInf u"
  by (cases u) simp_all

subsection \<open>The other concrete inputs\<close>

lemma ex_constants:
  "effectiveInverseMass exact_rt (ex_state lo up bj) 0 = Fin (1 / 4)"
  "biasTerm exact_rt (ex_state lo up bj) 0 = Fin (- 2)"
  by (simp_all add: effectiveInverseMass_def biasTerm_def G_Minv_Gt_def Gq_def GW_def GMinvf_def
        sum12_def upt_12 slot_G_def ex_state_eq num_at_def ex_G_def exact_rt_def num_sub_def)

lemma wide_state_eq:
  "wide_state =
     \<lparr> iterations = 1, h = Fin 1, a = Fin 1, b = Fin 1, eps = Fin 2, k = Fin 0, d = Fin 0,
       G = ex_G, MinvTrace = replicate 12 (Fin 1), Fext = replicate 12 (Fin 0), q = ex_G,
       qdot = replicate 12 (Fin 0), n = 1, upper = [NumV PInf], lower = [NumV NaN],
       hasupper = [True], haslower = [False],
       i = Plain [32768], j = [1],
       vxlambda = replicate many_bodies (Fin 0), vylambda = replicate many_bodies (Fin 0),
       vzlambda = replicate many_bodies (Fin 0), wxlambda = replicate many_bodies (Fin 0),
       wylambda = replicate many_bodies (Fin 0), wzlambda = replicate many_bodies (Fin 0),
       debug = False \<rparr>"
proof -
  have p: "i (reset many_bodies ex_solver) = Plain []"
    by (simp add: reset_def)
  have l: "length ex_G = 12"
    by (simp add: ex_G_def)
  show ?thesis
    unfolding wide_state_def add_call_def addConstraint_plain [OF p]
    by (simp add: ex_args_def map_num_at_12 l reset_def ex_solver_def Solver_def falsy_num_def
          isNaN_def)
qed

lemma wide_start:
  "solve_start exact_rt wide_state = (wide_state\<lparr> i := Int16Array [- 32768] \<rparr>, ex_work)"
  by (simp add: solve_start_def Let_def wide_state_eq init_work_def to_int16_def exact_rt_def
        ex_G_def ex_work_def)

lemma wide_precompute:
  "precompute exact_rt (wide_state\<lparr> i := Int16Array [- 32768] \<rparr>) 0 ex_work = ex_work1"
  by (simp add: precompute_def num_at_int_def wide_state_eq upt_rec precomp_slot_def num_at_def
        ex_G_def exact_rt_def num_sub_def ex_work_def ex_work1_def)

lemma many_bodies_gt: "1 < int many_bodies" "32768 < int many_bodies" "1 < many_bodies"
  "32768 < many_bodies" "Suc 0 < many_bodies"
  by (simp_all add: many_bodies_def)

lemma wide_Gulambda:
  "Gulambda exact_rt (wide_state\<lparr> i := Int16Array [- 32768] \<rparr>) ex_work 0 = NaN"
  by (simp add: Gulambda_def Let_def wide_state_eq index_at_def body_at_def in_range_def num_at_def
        ex_work_def ex_G_def exact_rt_def many_bodies_gt)

lemma wide_Gulambda1:
  "Gulambda exact_rt (wide_state\<lparr> i := Int16Array [- 32768] \<rparr>) ex_work1 0 = NaN"
  by (simp add: Gulambda_def Let_def wide_state_eq index_at_def body_at_def in_range_def num_at_def
        ex_work1_def ex_G_def exact_rt_def many_bodies_gt)

lemma wide_Gu_at:
  "Gu_at exact_rt (wide_state\<lparr> i := Int16Array [- 32768] \<rparr>) ex_work 0 (Some 32768) (Some 1) = Fin 0"
  by (simp add: Gu_at_def sum12_def upt_12 delta_at_def wide_state_eq body_at_def in_range_def
        num_at_def ex_work_def ex_G_def exact_rt_def many_bodies_gt)


lemma cfg_start: "solve_start exact_rt cfg_state = (cfg_inside [Fin 0, Fin 0], ex_work)"
proof -
  have p: "i (reset 2 (Solver exact_rt (Fin 1) (Fin 1) (Fin 2) (Fin 0) (Fin 0) (Some 0) (Some (Fin 1))))
             = Plain []"
    by (simp add: reset_def)
  have l: "length ex_G = 12"
    by (simp add: ex_G_def)
  show ?thesis
    unfolding cfg_state_def add_call_def addConstraint_plain [OF p]
    by (simp add: solve_start_def Let_def init_work_def ex_args_def map_num_at_12 l reset_def
          Solver_def falsy_num_def isNaN_def numeral_2_eq_2 cfg_inside_def to_int16_def ex_work_def
          exact_rt_def ex_G_def)
qed

lemma cfg_quiet:
  "clamp_upper exact_rt (cfg_inside vs) 0 (clamp_lower exact_rt (cfg_inside vs) 0 w) = w"
  by (simp add: clamp_upper_def clamp_lower_def upper_fires_def lower_fires_def cfg_inside_def
        flag_at_def bound_at_def num_gt_def num_lt_PInf)


lemma cfg_precompute: "precompute exact_rt (cfg_inside vs) 0 ex_work = ex_work1"
  by (simp add: precompute_def num_at_int_def cfg_inside_def upt_rec precomp_slot_def num_at_def
        ex_G_def exact_rt_def num_sub_def ex_work_def ex_work1_def)

lemma cfg_precompute_cached: "precompute exact_rt (cfg_inside vs) 0 (cfg_work dl) = cfg_work dl"
  by (simp add: precompute_def num_at_int_def cfg_work_def ex_work1_def)

lemma cfg_Gulambda_first: "Gulambda exact_rt (cfg_inside [Fin 0, Fin 0]) ex_work1 0 = Fin 0"
  by (simp add: Gulambda_def Let_def cfg_inside_def index_at_def body_at_def in_range_def num_at_def
        ex_work1_def ex_G_def exact_rt_def)

lemma cfg_Gulambda_later:
  "Gulambda exact_rt (cfg_inside [Fin (1 / 2), Fin (- (1 / 2))]) (cfg_work dl) 0 = Fin (- 1)"
  by (simp add: Gulambda_def Let_def cfg_inside_def index_at_def body_at_def in_range_def num_at_def
        cfg_work_def ex_work1_def ex_G_def exact_rt_def)

lemma cfg_update_first:
  "update_lambda exact_rt (cfg_inside [Fin 0, Fin 0]) 0 ex_work1 = cfg_work (Fin (- (1 / 2)))"
  by (simp add: update_lambda_def cfg_Gulambda_first Let_def)
     (simp add: cfg_inside_def cfg_work_def ex_work1_def num_at_def exact_rt_def num_sub_def)

lemma cfg_update_later:
  "update_lambda exact_rt (cfg_inside [Fin (1 / 2), Fin (- (1 / 2))]) 0 (cfg_work dl) = cfg_work (Fin 0)"
  by (simp add: update_lambda_def cfg_Gulambda_later Let_def)
     (simp add: cfg_inside_def cfg_work_def ex_work1_def num_at_def exact_rt_def num_sub_def)

lemma cfg_propagate_first:
  "propagate exact_rt 0 (cfg_work (Fin (- (1 / 2)))) (cfg_inside [Fin 0, Fin 0])
     = cfg_inside [Fin (1 / 2), Fin (- (1 / 2))]"
  unfolding propagate_eq
  by (simp add: slot_delta_def cfg_inside_def cfg_work_def ex_work1_def ex_G_def num_at_def
        index_at_def body_add_def in_range_def exact_rt_def)

lemma cfg_propagate_later:
  "propagate exact_rt 0 (cfg_work (Fin 0)) (cfg_inside [Fin (1 / 2), Fin (- (1 / 2))])
     = cfg_inside [Fin (1 / 2), Fin (- (1 / 2))]"
  unfolding propagate_eq
  by (simp add: slot_delta_def cfg_inside_def cfg_work_def ex_work1_def ex_G_def num_at_def
        index_at_def body_add_def in_range_def exact_rt_def)

lemma cfg_pass_first:
  "solve_body exact_rt 0 (cfg_inside [Fin 0, Fin 0], ex_work)
     = (cfg_inside [Fin (1 / 2), Fin (- (1 / 2))], cfg_work (Fin (- (1 / 2))))"
  by (simp add: solve_body_def Let_def cfg_precompute cfg_update_first cfg_quiet cfg_propagate_first)

lemma cfg_pass_later:
  "solve_body exact_rt 0 (cfg_inside [Fin (1 / 2), Fin (- (1 / 2))], cfg_work dl)
     = (cfg_inside [Fin (1 / 2), Fin (- (1 / 2))], cfg_work (Fin 0))"
  by (simp add: solve_body_def Let_def cfg_precompute_cached cfg_update_later cfg_quiet
        cfg_propagate_later)

lemma cfg_solve_state:
  "solve_state exact_rt cfg_state = (cfg_inside [Fin (1 / 2), Fin (- (1 / 2))], cfg_work (Fin 0))"
proof -
  have it: "iterations (cfg_inside vs) = 10" "n (cfg_inside vs) = 1" for vs
    by (simp_all add: cfg_inside_def)
  have sw: "sweep exact_rt (Suc 0) (cfg_inside [Fin (1 / 2), Fin (- (1 / 2))], cfg_work dl)
              = (cfg_inside [Fin (1 / 2), Fin (- (1 / 2))], cfg_work (Fin 0))" for dl
    by (simp add: sweep_def cfg_pass_later)
  have s1: "sweep exact_rt (Suc 0) (cfg_inside [Fin 0, Fin 0], ex_work)
              = (cfg_inside [Fin (1 / 2), Fin (- (1 / 2))], cfg_work (Fin (- (1 / 2))))"
    by (simp add: sweep_def cfg_pass_first)
  have "(sweep exact_rt 1 ^^ 10) (cfg_inside [Fin 0, Fin 0], ex_work)
          = (cfg_inside [Fin (1 / 2), Fin (- (1 / 2))], cfg_work (Fin 0))"
    by (simp add: eval_nat_numeral funpow_swap1 s1 sw)
  then show ?thesis
    by (simp add: solve_state_def Let_def cfg_start it)
qed

section \<open>The claims\<close>

subsection \<open>C1: the precomputed constants and the update of the impulse\<close>

text \<open>
  C1, as the code has it. \<open>solve\<close> is the sequence of the bodies of the inner loop, sweep
  after sweep. Take its state after any sequence of bodies and run the body for a
  constraint \<open>l\<close> below \<open>n\<close>. After the body the flag of \<open>l\<close> is set, \<open>c[l]\<close> is the
  effective inverse mass \<open>1 / (G_Minv_Gt + eps)\<close> and \<open>B[l]\<close> is the bias term
  \<open>- a Gq - b GW - h GMinvf\<close>, each a sum over the twelve slots of the constraint, stored
  in single precision; when the flag was set before, \<open>c\<close> and \<open>B\<close> are not written again.
  The body stores \<open>c[l] (B[l] - Gu - eps lambda[l])\<close> in \<open>dlambda[l]\<close> and adds it to
  \<open>lambda[l]\<close>, then applies the two clamps; when no clamp fires these are the values at
  the end of the body. \<open>Gu\<close> is the product of the Jacobian row with the current velocity
  changes of two bodies: the second body index as it was added, and the first body index
  wrapped to sixteen bits, which is the index as it was added when that lies between
  -32768 and 32767 (\<open>to_int16_id\<close>).
\<close>

theorem solve_precompute_and_update:
  assumes "l < n s"
  shows "let st = fold (solve_body rt) ls (solve_start rt s);
             w2 = updated rt (fst st) l (snd st);
             st' = solve_body rt l st;
             gu = Gu_at rt (fst st) (snd st) l
                    (map_option to_int16 (index_at (elems (i s)) l)) (index_at (j s) l);
             dl = f32 rt (num_mul rt (effectiveInverseMass rt s l)
                    (num_sub rt (num_sub rt (biasTerm rt s l) gu)
                                (num_mul rt (eps s) (num_at (lambda (snd st)) l))))
         in solve_state rt s =
              fold (solve_body rt) (concat (replicate (nat (iterations s)) [0..<n s])) (solve_start rt s) \<and>
            num_at_int (precomp (snd st')) l \<noteq> 0 \<and>
            num_at (c (snd st')) l = effectiveInverseMass rt s l \<and>
            num_at (B (snd st')) l = biasTerm rt s l \<and>
            (num_at_int (precomp (snd st)) l \<noteq> 0 \<longrightarrow>
               c (snd st') = c (snd st) \<and> B (snd st') = B (snd st)) \<and>
            num_at (dlambda w2) l = dl \<and>
            num_at (lambda w2) l = f32 rt (num_add rt (num_at (lambda (snd st)) l) dl) \<and>
            snd st' = clamp_upper rt (fst st) l (clamp_lower rt (fst st) l w2) \<and>
            (\<not> lower_fires rt (fst st) l w2 \<and> \<not> upper_fires rt (fst st) l w2 \<longrightarrow> snd st' = w2)"
proof -
  define st where "st = fold (solve_body rt) ls (solve_start rt s)"
  define s0 where "s0 = fst (solve_start rt s)"
  obtain t w where tw: "st = (t, w)"
    by (cases st)
  have s0: "same_constraints s0 t"
    using same_constraints_fold [of "solve_start rt s" rt ls] by (simp add: st_def [symmetric] s0_def tw)
  have e: "effectiveInverseMass rt s0 l = effectiveInverseMass rt s l"
    "biasTerm rt s0 l = biasTerm rt s l" "n s0 = n s" "eps s0 = eps s"
    "i s0 = Int16Array (map to_int16 (elems (i s)))" "j s0 = j s"
    by (simp_all add: s0_def fst_solve_start effectiveInverseMass_def biasTerm_def G_Minv_Gt_def
          Gq_def GW_def GMinvf_def slot_G_def)
  have "cache_ok rt s0 (snd (solve_start rt s))"
    unfolding s0_def fst_solve_start snd_solve_start
    by (simp add: init_work_def cache_ok_def list_all_iff num_at_int_def)
  then have ok: "cache_ok rt s0 w"
    using cache_ok_fold [of s0 "solve_start rt s" rt ls]
    by (simp add: st_def [symmetric] tw s0_def same_constraints_refl)
  have pc: "precompute rt t l w = precompute rt s0 l w"
    by (rule precompute_cong [OF s0])
  have l0: "l < n s0"
    using assms e by simp
  have val: "num_at (c (precompute rt t l w)) l = effectiveInverseMass rt s l"
    "num_at (B (precompute rt t l w)) l = biasTerm rt s l"
    using cache_value [OF ok l0] e by (simp_all add: pc)
  have flag: "num_at_int (precomp (precompute rt t l w)) l \<noteq> 0"
  proof (cases "num_at_int (precomp w) l = 0")
    case True
    have g: "G32 w = map (f32 rt) (G s0)"
      using ok by (simp add: cache_ok_def)
    show ?thesis
      using ok l0 unfolding pc precompute_fresh [OF g True]
      by (simp add: num_at_int_update cache_ok_def)
  next
    case False
    then show ?thesis
      by (simp add: precompute_cached)
  qed
  have len: "l < length (lambda w)" "l < length (dlambda w)"
    using ok l0 by (simp_all add: cache_ok_def)
  have ix: "index_at (elems (i t)) l = map_option to_int16 (index_at (elems (i s)) l)"
    "index_at (j t) l = index_at (j s) l" "eps t = eps s"
    using s0 e by (simp_all add: same_constraints_def index_at_map)
  have sol: "solve_state rt s =
      fold (solve_body rt) (concat (replicate (nat (iterations s)) [0..<n s])) (solve_start rt s)"
    by (rule solve_state_fold)
  have body: "snd (solve_body rt l (t, w)) = clamp_upper rt t l (clamp_lower rt t l (updated rt t l w))"
    by (simp add: snd_solve_body updated_def)
  have quiet: "snd (solve_body rt l (t, w)) = updated rt t l w"
    if "\<not> lower_fires rt t l (updated rt t l w)" "\<not> upper_fires rt t l (updated rt t l w)"
    using that by (simp add: body clamp_lower_def clamp_upper_def)
  have c1: "num_at_int (precomp (snd (solve_body rt l (t, w)))) l \<noteq> 0"
    by (simp add: cache_frame_body flag)
  have c2: "num_at (c (snd (solve_body rt l (t, w)))) l = effectiveInverseMass rt s l"
    "num_at (B (snd (solve_body rt l (t, w)))) l = biasTerm rt s l"
    by (simp_all add: cache_frame_body val)
  have c3: "num_at_int (precomp w) l \<noteq> 0 \<longrightarrow>
      c (snd (solve_body rt l (t, w))) = c w \<and> B (snd (solve_body rt l (t, w))) = B w"
    by (simp add: cache_frame_body precompute_cached)
  have c4: "num_at (dlambda (updated rt t l w)) l =
      f32 rt (num_mul rt (effectiveInverseMass rt s l)
        (num_sub rt (num_sub rt (biasTerm rt s l)
           (Gu_at rt t w l (map_option to_int16 (index_at (elems (i s)) l)) (index_at (j s) l)))
           (num_mul rt (eps s) (num_at (lambda w) l))))"
    using updated_values [OF len, of rt t] by (simp add: val Gulambda_Gu_at ix)
  have c5: "num_at (lambda (updated rt t l w)) l =
      f32 rt (num_add rt (num_at (lambda w) l)
        (f32 rt (num_mul rt (effectiveInverseMass rt s l)
        (num_sub rt (num_sub rt (biasTerm rt s l)
           (Gu_at rt t w l (map_option to_int16 (index_at (elems (i s)) l)) (index_at (j s) l)))
           (num_mul rt (eps s) (num_at (lambda w) l))))))"
    using updated_values [OF len, of rt t] by (simp add: c4)
  show ?thesis
    unfolding Let_def st_def [symmetric] tw fst_conv snd_conv
    using sol c1 c2 c3 c4 c5 body quiet by blast
qed


theorem solve_precompute_and_update_witness:
  "0 < n (ex_state (NumV NaN) (NumV PInf) 1) \<and>
   \<not> lower_fires exact_rt
       (fst (fold (solve_body exact_rt) [0] (solve_start exact_rt (ex_state (NumV NaN) (NumV PInf) 1)))) 0
       (updated exact_rt
         (fst (fold (solve_body exact_rt) [0] (solve_start exact_rt (ex_state (NumV NaN) (NumV PInf) 1)))) 0
         (snd (fold (solve_body exact_rt) [0] (solve_start exact_rt (ex_state (NumV NaN) (NumV PInf) 1))))) \<and>
   num_at (c (snd (solve_body exact_rt 0
       (fold (solve_body exact_rt) [0] (solve_start exact_rt (ex_state (NumV NaN) (NumV PInf) 1)))))) 0
     = Fin (1 / 4) \<and>
   num_at (B (snd (solve_body exact_rt 0
       (fold (solve_body exact_rt) [0] (solve_start exact_rt (ex_state (NumV NaN) (NumV PInf) 1)))))) 0
     = Fin (- 2) \<and>
   snd (solve_body exact_rt 0
       (fold (solve_body exact_rt) [0] (solve_start exact_rt (ex_state (NumV NaN) (NumV PInf) 1)))) =
     updated exact_rt
       (fst (fold (solve_body exact_rt) [0] (solve_start exact_rt (ex_state (NumV NaN) (NumV PInf) 1)))) 0
       (snd (fold (solve_body exact_rt) [0] (solve_start exact_rt (ex_state (NumV NaN) (NumV PInf) 1))))"
proof -
  let ?s = "ex_state (NumV NaN) (NumV PInf) 1"
  let ?st = "fold (solve_body exact_rt) [0] (solve_start exact_rt ?s)"
  have m: "0 < n ?s"
    by (simp add: ex_state_eq)
  have "same_constraints (fst (solve_start exact_rt ?s)) (fst ?st)"
    by (rule same_constraints_fold)
  then have fl: "haslower (fst ?st) = [False]" "upper (fst ?st) = [NumV PInf]"
    by (simp_all add: same_constraints_def ex_start ex_inside_eq isNaN_def)
  have lf: "\<not> lower_fires exact_rt (fst ?st) 0 w" for w
    unfolding lower_fires_def fl by (simp add: flag_at_def)
  have uf: "\<not> upper_fires exact_rt (fst ?st) 0 w" for w
    unfolding upper_fires_def fl by (simp add: bound_at_def num_gt_def num_lt_PInf)
  note t = solve_precompute_and_update [OF m, of exact_rt "[0]", unfolded Let_def]
  have cv: "num_at (c (snd (solve_body exact_rt 0 ?st))) 0 = effectiveInverseMass exact_rt ?s 0"
    using t by blast
  have bv: "num_at (B (snd (solve_body exact_rt 0 ?st))) 0 = biasTerm exact_rt ?s 0"
    using t by blast
  have q: "snd (solve_body exact_rt 0 ?st) = updated exact_rt (fst ?st) 0 (snd ?st)"
    using t lf uf by blast
  show ?thesis
    using m lf cv bv q unfolding ex_constants by blast
qed

text \<open>
  C1 as stated fails in the first body of \<open>Gu\<close>. With 32769 bodies and a constraint on
  the body 32768, \<open>solve\<close> reads the arrays at -32768, which is \<open>undefined\<close>: \<open>Gulambda\<close>
  and \<open>dlambda[l]\<close> are NaN, where the product with the velocity changes of the bodies
  32768 and 1 is zero.
\<close>

theorem wrapped_index_counterexample:
  "index_at (elems (i wide_state)) 0 = Some 32768 \<and>
   in_range (vxlambda wide_state) (Some 32768) \<and>
   index_at (elems (i (fst (solve_start exact_rt wide_state)))) 0 = Some (- 32768) \<and>
   Gulambda exact_rt (fst (solve_start exact_rt wide_state)) (snd (solve_start exact_rt wide_state)) 0
     = NaN \<and>
   Gu_at exact_rt (fst (solve_start exact_rt wide_state)) (snd (solve_start exact_rt wide_state)) 0
     (Some 32768) (Some 1) = Fin 0 \<and>
   dlambda (snd (solve_state exact_rt wide_state)) = [NaN]"
proof -
  have st: "solve_state exact_rt wide_state =
      solve_body exact_rt 0 (wide_state\<lparr> i := Int16Array [- 32768] \<rparr>, ex_work)"
    by (simp add: solve_state_fold wide_start) (simp add: wide_state_eq)
  have up: "updated exact_rt (wide_state\<lparr> i := Int16Array [- 32768] \<rparr>) 0 ex_work
      = ex_work1\<lparr> dlambda := [NaN], lambda := [NaN] \<rparr>"
    unfolding updated_def wide_precompute
    by (simp add: update_lambda_def wide_Gulambda1 Let_def)
       (simp add: wide_state_eq ex_work1_def num_at_def exact_rt_def num_sub_def)
  have "snd (solve_state exact_rt wide_state) = ex_work1\<lparr> dlambda := [NaN], lambda := [NaN] \<rparr>"
    unfolding st snd_solve_body_clamped lower_clamped_def up
    by (simp add: clamp_lower_def lower_fires_def clamp_upper_def upper_fires_def truthy_object_def
          wide_state_eq flag_at_def bound_at_def num_at_def num_gt_def ex_work1_def)
  then show ?thesis
    by (simp add: wide_start wide_Gulambda wide_Gu_at)
       (simp add: wide_state_eq index_at_def in_range_def many_bodies_gt)
qed

subsection \<open>C2: a contact that does not penetrate adds nothing\<close>

text \<open>
  C2. When the signed penetration depth \<open>q = ((xj + rj) - (xi + ri)) \<cdot> n\<close> is at least
  zero, \<open>addNonPenetrationConstraint\<close> returns without an exception and leaves the whole
  solver object as it was: \<open>n\<close> and every array are unchanged.
\<close>

theorem addNonPenetrationConstraint_skip:
  assumes "num_ge (dot rt (vsub rt (vadd rt xj rj) (vadd rt xi ri)) ni) (Fin 0)"
  shows "addNonPenetrationConstraint rt bi bj xi xj ni ri rj iMi iMj iIi iIj
           vi vj wi wj fi fj taui tauj s = (Inr (), s)"
  using num_ge_not_lt [OF assms] by (simp add: addNonPenetrationConstraint_def Let_def)

theorem addNonPenetrationConstraint_skip_witness:
  "num_ge (dot exact_rt (vsub exact_rt (vadd exact_rt ex3 zero3) (vadd exact_rt zero3 zero3)) ex3)
     (Fin 0) \<and>
   addNonPenetrationConstraint exact_rt 0 1 zero3 ex3 ex3 zero3 zero3 ex3 ex3 ex3 ex3
     zero3 zero3 zero3 zero3 zero3 zero3 zero3 zero3 (ex_state (NumV (Fin 0)) (NumV PInf) 1)
     = (Inr (), ex_state (NumV (Fin 0)) (NumV PInf) 1)"
proof -
  have g: "num_ge (dot exact_rt (vsub exact_rt (vadd exact_rt ex3 zero3)
                    (vadd exact_rt zero3 zero3)) ex3) (Fin 0)"
    by (simp add: zero3_def ex3_def exact_rt_def num_sub_def)
  show ?thesis
    using g addNonPenetrationConstraint_skip [OF g] by simp
qed

subsection \<open>C3: the upper clamp does not look at the flag of the constraint\<close>

text \<open>
  C3. The condition of the upper clamp tests the array \<open>this.hasupper\<close>, not its entry
  for the constraint. So in the body of the inner loop, whenever \<open>lambda[l]\<close> (after the
  lower clamp) is greater than \<open>upper[l]\<close>, \<open>lambda[l]\<close> ends as \<open>upper[l]\<close> in single
  precision, whatever the flag of the constraint is, and otherwise the upper clamp changes
  nothing; the body and the whole of \<open>solve\<close> compute the same from two objects that
  differ in their flags only.
\<close>

theorem upper_clamp_ignores_flag:
  assumes "l < length (lambda w)"
  shows "(num_gt (num_at (lambda (lower_clamped rt s l w)) l) (toNumber rt (bound_at (upper s) l)) \<longrightarrow>
            num_at (lambda (snd (solve_body rt l (s, w)))) l = f32 rt (toNumber rt (bound_at (upper s) l))) \<and>
         (\<not> num_gt (num_at (lambda (lower_clamped rt s l w)) l) (toNumber rt (bound_at (upper s) l)) \<longrightarrow>
            snd (solve_body rt l (s, w)) = lower_clamped rt s l w) \<and>
         solve_body rt l (s\<lparr> hasupper := fl \<rparr>, w) =
           (case solve_body rt l (s, w) of (t, w') \<Rightarrow> (t\<lparr> hasupper := fl \<rparr>, w')) \<and>
         solve_state rt (s\<lparr> hasupper := fl \<rparr>) =
           (case solve_state rt s of (t, w') \<Rightarrow> (t\<lparr> hasupper := fl \<rparr>, w'))"
proof -
  have len: "l < length (lambda (lower_clamped rt s l w))"
    using assms by (simp add: lower_clamped_frame)
  have fire: "num_at (lambda (snd (solve_body rt l (s, w)))) l = f32 rt (toNumber rt (bound_at (upper s) l))"
    if "num_gt (num_at (lambda (lower_clamped rt s l w)) l) (toNumber rt (bound_at (upper s) l))"
    using that len
    by (simp add: snd_solve_body_clamped clamp_upper_def upper_fires_def truthy_object_def
          lambda_clamp_to num_at_update)
  have quiet: "snd (solve_body rt l (s, w)) = lower_clamped rt s l w"
    if "\<not> num_gt (num_at (lambda (lower_clamped rt s l w)) l) (toNumber rt (bound_at (upper s) l))"
    using that by (simp add: snd_solve_body_clamped clamp_upper_def upper_fires_def)
  obtain t w' where st: "solve_start rt s = (t, w')"
    by (cases "solve_start rt s")
  have whole: "solve_state rt (s\<lparr> hasupper := fl \<rparr>) =
     (case solve_state rt s of (t, w') \<Rightarrow> (t\<lparr> hasupper := fl \<rparr>, w'))"
    unfolding solve_state_fold
    by (simp add: solve_start_hasupper st fold_solve_body_hasupper)
  show ?thesis
    using fire quiet whole solve_body_hasupper [where rt = rt and l = l and s = s and fl = fl and w = w] by blast
qed

theorem upper_clamp_ignores_flag_witness:
  "0 < length (lambda (snd (solve_start exact_rt (ex_state (NumV (Fin 0)) (NumV (Fin (- 1))) 1)))) \<and>
   num_gt (num_at (lambda (lower_clamped exact_rt
              (fst (solve_start exact_rt (ex_state (NumV (Fin 0)) (NumV (Fin (- 1))) 1))) 0
              (snd (solve_start exact_rt (ex_state (NumV (Fin 0)) (NumV (Fin (- 1))) 1))))) 0)
     (toNumber exact_rt (bound_at (upper
        (fst (solve_start exact_rt (ex_state (NumV (Fin 0)) (NumV (Fin (- 1))) 1)))) 0)) \<and>
   num_at (lambda (snd (solve_state exact_rt (ex_state (NumV (Fin 0)) (NumV (Fin (- 1))) 1)))) 0
     = Fin (- 1) \<and>
   snd (solve_state exact_rt ((ex_state (NumV (Fin 0)) (NumV (Fin (- 1))) 1)\<lparr> hasupper := [False] \<rparr>))
     = snd (solve_state exact_rt (ex_state (NumV (Fin 0)) (NumV (Fin (- 1))) 1))"
proof -
  let ?s = "ex_state (NumV (Fin 0)) (NumV (Fin (- 1))) 1"
  have len: "0 < length (lambda (snd (solve_start exact_rt ?s)))"
    by (simp add: ex_start ex_work_def)
  have g: "num_gt (num_at (lambda (lower_clamped exact_rt (fst (solve_start exact_rt ?s)) 0
                                     (snd (solve_start exact_rt ?s)))) 0)
             (toNumber exact_rt (bound_at (upper (fst (solve_start exact_rt ?s))) 0))"
    by (simp add: ex_start ex_lower_clamped)
       (simp add: ex_inside_eq ex_work1_def num_at_def bound_at_def num_gt_def)
  have u: "f32 exact_rt (toNumber exact_rt (bound_at (upper (fst (solve_start exact_rt ?s))) 0)) = Fin (- 1)"
    by (simp add: ex_start) (simp add: ex_inside_eq bound_at_def exact_rt_def)
  note t = upper_clamp_ignores_flag [OF len, where rt = exact_rt and s = "fst (solve_start exact_rt ?s)"]
  have b: "solve_state exact_rt ?s = solve_body exact_rt 0 (fst (solve_start exact_rt ?s), snd (solve_start exact_rt ?s))"
    by (simp add: ex_solve_state ex_start)
  have "num_at (lambda (snd (solve_state exact_rt ?s))) 0 = Fin (- 1)"
    unfolding b using t g u by simp
  moreover have "snd (solve_state exact_rt (?s\<lparr> hasupper := [False] \<rparr>)) = snd (solve_state exact_rt ?s)"
    using upper_clamp_ignores_flag [OF len, where rt = exact_rt and s = ?s and fl = "[False]"]
    by (simp split: prod.splits)
  ultimately show ?thesis
    using len g by blast
qed

subsection \<open>C4: the rows of a contact constraint\<close>

text \<open>
  C4, as the code has it. When the depth \<open>q\<close> is negative,
  \<open>addNonPenetrationConstraint\<close> calls \<open>addConstraint\<close> with the Jacobian row
  \<open>[-n, -(ri \<times> n), n, ri \<times> n]\<close>, the violation row \<open>[-q\<^sub>v, 0, 0, 0, q\<^sub>v, 0, 0, 0]\<close>, the
  lower bound zero and, as upper bound, the string \<open>'inf'\<close>. The string is stored as it
  is; the flag of the upper bound is false when the string is not a number, as it is in
  JavaScript, so that the constraint is recorded as unbounded above.
\<close>

theorem addNonPenetrationConstraint_rows:
  assumes "num_lt (dot rt (contact_q rt xi xj ri rj) ni) (Fin 0)"
  shows "addNonPenetrationConstraint rt bi bj xi xj ni ri rj iMi iMj iIi iIj
           vi vj wi wj fi fj taui tauj s =
           (case addConstraint rt
                   (row12 (vneg ni) (vneg (cross rt ri ni)) ni (cross rt ri ni))
                   [vx iMi, vy iMi, vz iMi, vz iIi, vy iIi, vz iIi,
                    vx iMj, vy iMj, vz iMj, vz iIj, vy iIj, vz iIj]
                   (row12 (vneg (contact_q rt xi xj ri rj)) zero3 (contact_q rt xi xj ri rj) zero3)
                   (row12 (vneg (vsub rt vj vi)) zero3 (vsub rt vj vi) zero3)
                   (row12 fi taui fj tauj)
                   (NumV (Fin 0)) (StrV ''inf'') bi bj s of
              (Inl e, s') \<Rightarrow> (Inl e, s')
            | (Inr r, s') \<Rightarrow> (Inr (), s')) \<and>
         G (snd (addNonPenetrationConstraint rt bi bj xi xj ni ri rj iMi iMj iIi iIj
                   vi vj wi wj fi fj taui tauj s))
           = G s @ row12 (vneg ni) (vneg (cross rt ri ni)) ni (cross rt ri ni) \<and>
         q (snd (addNonPenetrationConstraint rt bi bj xi xj ni ri rj iMi iMj iIi iIj
                   vi vj wi wj fi fj taui tauj s))
           = q s @ row12 (vneg (contact_q rt xi xj ri rj)) zero3 (contact_q rt xi xj ri rj) zero3 \<and>
         lower (snd (addNonPenetrationConstraint rt bi bj xi xj ni ri rj iMi iMj iIi iIj
                   vi vj wi wj fi fj taui tauj s)) = lower s @ [NumV (Fin 0)] \<and>
         upper (snd (addNonPenetrationConstraint rt bi bj xi xj ni ri rj iMi iMj iIi iIj
                   vi vj wi wj fi fj taui tauj s)) = upper s @ [StrV ''inf''] \<and>
         haslower (snd (addNonPenetrationConstraint rt bi bj xi xj ni ri rj iMi iMj iIi iIj
                   vi vj wi wj fi fj taui tauj s)) = haslower s @ [True] \<and>
         hasupper (snd (addNonPenetrationConstraint rt bi bj xi xj ni ri rj iMi iMj iIi iIj
                   vi vj wi wj fi fj taui tauj s)) = hasupper s @ [str2num rt ''inf'' \<noteq> NaN]"
  using addNonPenetrationConstraint_call [OF assms] addNonPenetrationConstraint_pushed [OF assms]
  by simp

theorem addNonPenetrationConstraint_rows_witness:
  "num_lt (dot exact_rt (contact_q exact_rt ex3 zero3 zero3 zero3) ex3) (Fin 0) \<and>
   G (snd (addNonPenetrationConstraint exact_rt 0 1 ex3 zero3 ex3 zero3 zero3 ex3 ex3 ex3 ex3
             zero3 zero3 zero3 zero3 zero3 zero3 zero3 zero3 (reset 2 ex_solver)))
     = [Fin (- 1), Fin 0, Fin 0, Fin 0, Fin 0, Fin 0, Fin 1, Fin 0, Fin 0, Fin 0, Fin 0, Fin 0] \<and>
   q (snd (addNonPenetrationConstraint exact_rt 0 1 ex3 zero3 ex3 zero3 zero3 ex3 ex3 ex3 ex3
             zero3 zero3 zero3 zero3 zero3 zero3 zero3 zero3 (reset 2 ex_solver)))
     = [Fin 1, Fin 0, Fin 0, Fin 0, Fin 0, Fin 0, Fin (- 1), Fin 0, Fin 0, Fin 0, Fin 0, Fin 0] \<and>
   lower (snd (addNonPenetrationConstraint exact_rt 0 1 ex3 zero3 ex3 zero3 zero3 ex3 ex3 ex3 ex3
             zero3 zero3 zero3 zero3 zero3 zero3 zero3 zero3 (reset 2 ex_solver))) = [NumV (Fin 0)] \<and>
   hasupper (snd (addNonPenetrationConstraint exact_rt 0 1 ex3 zero3 ex3 zero3 zero3 ex3 ex3 ex3 ex3
             zero3 zero3 zero3 zero3 zero3 zero3 zero3 zero3 (reset 2 ex_solver))) = [False]"
proof -
  have g: "num_lt (dot exact_rt (contact_q exact_rt ex3 zero3 zero3 zero3) ex3) (Fin 0)"
    by (simp add: contact_q_def zero3_def ex3_def exact_rt_def num_sub_def)
  note r = addNonPenetrationConstraint_rows [OF g, where bi = 0 and bj = 1 and iMi = ex3
      and iMj = ex3 and iIi = ex3 and iIj = ex3 and vi = zero3 and vj = zero3 and wi = zero3
      and wj = zero3 and fi = zero3 and fj = zero3 and taui = zero3 and tauj = zero3
      and s = "reset 2 ex_solver"]
  have e: "str2num exact_rt ''inf'' = NaN"
    by (simp add: exact_rt_def)
  have rowG: "row12 (vneg ex3) (vneg (cross exact_rt zero3 ex3)) ex3 (cross exact_rt zero3 ex3)
      = [Fin (- 1), Fin 0, Fin 0, Fin 0, Fin 0, Fin 0, Fin 1, Fin 0, Fin 0, Fin 0, Fin 0, Fin 0]"
    by (simp add: row12_def vneg_def zero3_def ex3_def exact_rt_def num_sub_def)
  have rowq: "row12 (vneg (contact_q exact_rt ex3 zero3 zero3 zero3)) zero3
                (contact_q exact_rt ex3 zero3 zero3 zero3) zero3
      = [Fin 1, Fin 0, Fin 0, Fin 0, Fin 0, Fin 0, Fin (- 1), Fin 0, Fin 0, Fin 0, Fin 0, Fin 0]"
    by (simp add: row12_def vneg_def contact_q_def zero3_def ex3_def exact_rt_def num_sub_def)
  have em: "G (reset 2 ex_solver) = []" "q (reset 2 ex_solver) = []" "lower (reset 2 ex_solver) = []"
    "hasupper (reset 2 ex_solver) = []"
    by (simp_all add: reset_def)
  show ?thesis
    using g r [THEN conjunct2] by (simp add: rowG rowq e em)
qed

text \<open>
  C4 as stated fails in the upper bound: the value passed is the string \<open>'inf'\<close>, not the
  number \<open>+Infinity\<close>, and the flag recorded for it is false, where that of \<open>+Infinity\<close>
  is true.
\<close>

theorem addNonPenetrationConstraint_upper_counterexample:
  "num_lt (dot exact_rt (contact_q exact_rt ex3 zero3 zero3 zero3) ex3) (Fin 0) \<and>
   upper (snd (addNonPenetrationConstraint exact_rt 0 1 ex3 zero3 ex3 zero3 zero3 ex3 ex3 ex3 ex3
             zero3 zero3 zero3 zero3 zero3 zero3 zero3 zero3 (reset 2 ex_solver))) = [StrV ''inf''] \<and>
   StrV ''inf'' \<noteq> NumV PInf \<and>
   hasupper (snd (addNonPenetrationConstraint exact_rt 0 1 ex3 zero3 ex3 zero3 zero3 ex3 ex3 ex3 ex3
             zero3 zero3 zero3 zero3 zero3 zero3 zero3 zero3 (reset 2 ex_solver))) = [False] \<and>
   hasupper (snd (addConstraint exact_rt ex_G ex_G ex_G ex_G ex_G (NumV (Fin 0)) (NumV PInf) 0 1
             (reset 2 ex_solver))) = [True]"
proof -
  have g: "num_lt (dot exact_rt (contact_q exact_rt ex3 zero3 zero3 zero3) ex3) (Fin 0)"
    by (simp add: contact_q_def zero3_def ex3_def exact_rt_def num_sub_def)
  have p: "i (reset 2 ex_solver) = Plain []"
    by (simp add: reset_def)
  show ?thesis
    using g
      addNonPenetrationConstraint_pushed [OF g, where bi = 0 and bj = 1 and iMi = ex3 and iMj = ex3
        and iIi = ex3 and iIj = ex3 and vi = zero3 and vj = zero3 and wi = zero3 and wj = zero3
        and fi = zero3 and fj = zero3 and taui = zero3 and tauj = zero3 and s = "reset 2 ex_solver"]
    by (simp add: addConstraint_plain [OF p] isNaN_def) (simp add: reset_def exact_rt_def)
qed

subsection \<open>C5: the impulse of a constraint with lower bound zero\<close>

text \<open>
  C5, as the code has it. Let the constraint \<open>l\<close> have its lower flag set and the lower
  bound zero, and an upper bound that, stored in single precision, is not negative (a
  NaN or non-numeric upper bound is not). Then \<open>lambda[l]\<close> is not negative, that is, it
  is at least zero or NaN, after any sequence of bodies of the inner loop, and so at the
  end of every body and when \<open>solve\<close> returns. Zero is assumed to be a single precision
  number.
\<close>

theorem lambda_never_negative:
  assumes "flag_at (haslower s) l" and "toNumber rt (bound_at (lower s) l) = Fin 0"
    and "\<not> num_lt (f32 rt (toNumber rt (bound_at (upper s) l))) (Fin 0)"
    and "round32 rt 0 = Fin 0"
  shows "\<not> num_lt (num_at (lambda (snd (fold (solve_body rt) ls (solve_start rt s)))) l) (Fin 0) \<and>
         \<not> num_lt (num_at (lambda (snd (solve_state rt s))) l) (Fin 0)"
proof -
  have c: "same_constraints (fst (solve_start rt s)) (fst (solve_start rt s))"
    by (rule same_constraints_refl)
  have h: "flag_at (haslower (fst (solve_start rt s))) l"
    "toNumber rt (bound_at (lower (fst (solve_start rt s))) l) = Fin 0"
    "\<not> num_lt (f32 rt (toNumber rt (bound_at (upper (fst (solve_start rt s))) l))) (Fin 0)"
    using assms by (simp_all add: fst_solve_start)
  have z: "not_negative l (snd (solve_start rt s))"
    by (simp add: not_negative_def snd_solve_start init_work_def num_at_def)
  have "not_negative l (snd (fold (solve_body rt) ms (solve_start rt s)))" for ms
    by (rule not_negative_fold [OF h assms(4) c z])
  then show ?thesis
    by (simp add: not_negative_def solve_state_fold)
qed

theorem lambda_never_negative_witness:
  "flag_at (haslower (ex_state (NumV (Fin 0)) (NumV PInf) 1)) 0 \<and>
   toNumber exact_rt (bound_at (lower (ex_state (NumV (Fin 0)) (NumV PInf) 1)) 0) = Fin 0 \<and>
   \<not> num_lt (f32 exact_rt (toNumber exact_rt (bound_at (upper (ex_state (NumV (Fin 0)) (NumV PInf) 1)) 0)))
       (Fin 0) \<and>
   round32 exact_rt 0 = Fin 0 \<and>
   \<not> num_lt (num_at (lambda (snd (solve_state exact_rt (ex_state (NumV (Fin 0)) (NumV PInf) 1)))) 0)
       (Fin 0)"
proof -
  have f: "flag_at (haslower (ex_state (NumV (Fin 0)) (NumV PInf) 1)) 0"
    by (simp add: ex_state_eq flag_at_def isNaN_def)
  have lo: "toNumber exact_rt (bound_at (lower (ex_state (NumV (Fin 0)) (NumV PInf) 1)) 0) = Fin 0"
    by (simp add: ex_state_eq bound_at_def)
  have up: "\<not> num_lt (f32 exact_rt
               (toNumber exact_rt (bound_at (upper (ex_state (NumV (Fin 0)) (NumV PInf) 1)) 0))) (Fin 0)"
    by (simp add: ex_state_eq bound_at_def)
  have z: "round32 exact_rt 0 = Fin 0"
    by (simp add: exact_rt_def)
  show ?thesis
    using f lo up z lambda_never_negative [OF f lo up z, of "[0]"] by simp
qed

text \<open>
  C5 as stated fails when the upper bound is negative: the upper clamp runs after the
  lower one and overwrites the zero.
\<close>

theorem lambda_negative_counterexample:
  "flag_at (haslower (ex_state (NumV (Fin 0)) (NumV (Fin (- 1))) 1)) 0 \<and>
   bound_at (lower (ex_state (NumV (Fin 0)) (NumV (Fin (- 1))) 1)) 0 = NumV (Fin 0) \<and>
   lambda (snd (solve_state exact_rt (ex_state (NumV (Fin 0)) (NumV (Fin (- 1))) 1))) = [Fin (- 1)] \<and>
   num_lt (Fin (- 1)) (Fin 0)"
proof -
  have "snd (solve_state exact_rt (ex_state (NumV (Fin 0)) (NumV (Fin (- 1))) 1))
          = ex_work1\<lparr> dlambda := [Fin 0], lambda := [Fin (- 1)] \<rparr>"
    unfolding ex_solve_state snd_solve_body_clamped lower_clamped_def ex_updated
    by (simp add: clamp_lower_def lower_fires_def clamp_upper_def upper_fires_def truthy_object_def
          clamp_to_def ex_inside_eq flag_at_def bound_at_def isNaN_def num_at_def num_gt_def
          exact_rt_def num_sub_def ex_work1_def)
  then show ?thesis
    by (simp add: ex_state_eq flag_at_def bound_at_def isNaN_def)
qed

subsection \<open>C6: what addConstraint returns and records\<close>

text \<open>
  C6, as the code has it. A call of \<open>addConstraint\<close> on an object whose \<open>this.i\<close> is a
  plain array, as it is from \<open>reset\<close> until \<open>solve\<close>, increments \<open>n\<close> by one and returns
  the new \<open>n - 1\<close>, the index of the new constraint. The flags pushed for the two bounds
  say whether the bound, converted to a number, is not NaN: an infinite bound counts as
  present.
\<close>

theorem addConstraint_effect:
  assumes "i s = Plain xs"
  shows "n (snd (addConstraint rt Ga Ma qa qda Fa lo up body_i body_j s)) = n s + 1 \<and>
         fst (addConstraint rt Ga Ma qa qda Fa lo up body_i body_j s)
           = Inr (n (snd (addConstraint rt Ga Ma qa qda Fa lo up body_i body_j s)) - 1) \<and>
         haslower (snd (addConstraint rt Ga Ma qa qda Fa lo up body_i body_j s))
           = haslower s @ [toNumber rt lo \<noteq> NaN] \<and>
         hasupper (snd (addConstraint rt Ga Ma qa qda Fa lo up body_i body_j s))
           = hasupper s @ [toNumber rt up \<noteq> NaN]"
  by (simp add: addConstraint_plain [OF assms] isNaN_def)

theorem addConstraint_effect_witness:
  "i (reset 2 ex_solver) = Plain [] \<and>
   fst (addConstraint exact_rt ex_G ex_G ex_G ex_G ex_G (NumV (Fin 0)) (StrV ''inf'') 0 1
          (reset 2 ex_solver)) = Inr 0 \<and>
   n (snd (addConstraint exact_rt ex_G ex_G ex_G ex_G ex_G (NumV (Fin 0)) (StrV ''inf'') 0 1
          (reset 2 ex_solver))) = 1 \<and>
   haslower (snd (addConstraint exact_rt ex_G ex_G ex_G ex_G ex_G (NumV (Fin 0)) (StrV ''inf'') 0 1
          (reset 2 ex_solver))) = [True] \<and>
   hasupper (snd (addConstraint exact_rt ex_G ex_G ex_G ex_G ex_G (NumV (Fin 0)) (StrV ''inf'') 0 1
          (reset 2 ex_solver))) = [False]"
proof -
  have p: "i (reset 2 ex_solver) = Plain []"
    by (simp add: reset_def)
  have e: "n (reset 2 ex_solver) = 0" "haslower (reset 2 ex_solver) = []"
    "hasupper (reset 2 ex_solver) = []" "str2num exact_rt ''inf'' = NaN"
    by (simp_all add: reset_def exact_rt_def)
  show ?thesis
    using p addConstraint_effect [OF p, of exact_rt ex_G ex_G ex_G ex_G ex_G "NumV (Fin 0)"
        "StrV ''inf''" 0 1]
    by (simp add: e)
qed

text \<open>
  C6 as stated fails in the flags: that of the upper bound \<open>+Infinity\<close> is true although
  the bound is not finite.
\<close>

theorem addConstraint_counterexample:
  "hasupper (ex_state (NumV (Fin 0)) (NumV PInf) 1) = [True] \<and>
   \<not> is_finite exact_rt (NumV PInf)"
  by (simp add: ex_state_eq isNaN_def is_finite_def)

subsection \<open>C7: the lengths of the arrays\<close>

text \<open>
  C7. After \<open>reset\<close> and any sequence of calls of \<open>addConstraint\<close> the five flat arrays
  have length \<open>12 * n\<close> and the arrays of bounds, flags and body indices have length \<open>n\<close>,
  and so they do after the \<open>solve\<close> that follows. Each operation preserves the invariant:
  \<open>reset\<close> establishes it, \<open>solve\<close> preserves it, and \<open>addConstraint\<close> and
  \<open>addNonPenetrationConstraint\<close> preserve it where the step calls them, between \<open>reset\<close>
  and \<open>solve\<close>, when \<open>this.i\<close> is a plain array.
\<close>

theorem lengths_invariant:
  "lengths_ok (reset nb s) \<and>
   lengths_ok (add_calls rt cas (reset nb s)) \<and>
   lengths_ok (solve rt (add_calls rt cas (reset nb s))) \<and>
   (lengths_ok s \<longrightarrow> lengths_ok (solve rt s)) \<and>
   (lengths_ok s \<and> is_plain (i s) \<longrightarrow>
      lengths_ok (snd (addConstraint rt Ga Ma qa qda Fa lo up body_i body_j s)) \<and>
      lengths_ok (snd (addNonPenetrationConstraint rt bi bj xi xj ni ri rj iMi iMj iIi iIj
                         vi vj wi wj fi fj taui tauj s)))"
proof -
  have "is_plain (i (reset nb s))"
    by (simp add: reset_def)
  then have "lengths_ok (add_calls rt cas (reset nb s))"
    using add_calls_ok lengths_ok_reset by blast
  then show ?thesis
    by (simp add: lengths_ok_reset lengths_ok_solve lengths_ok_addConstraint
          lengths_ok_addNonPenetrationConstraint)
qed

theorem lengths_invariant_witness:
  "lengths_ok (ex_state (NumV (Fin 0)) (NumV PInf) 1) \<and>
   is_plain (i (ex_state (NumV (Fin 0)) (NumV PInf) 1)) \<and>
   lengths_ok (solve exact_rt (ex_state (NumV (Fin 0)) (NumV PInf) 1)) \<and>
   lengths_ok (snd (addConstraint exact_rt ex_G ex_G ex_G ex_G ex_G (NumV (Fin 0)) (NumV PInf) 1 0
                      (ex_state (NumV (Fin 0)) (NumV PInf) 1)))"
proof -
  have l: "lengths_ok (ex_state (NumV (Fin 0)) (NumV PInf) 1)"
    by (simp add: ex_state_eq lengths_ok_def ex_G_def)
  have p: "is_plain (i (ex_state (NumV (Fin 0)) (NumV PInf) 1))"
    by (simp add: ex_state_eq)
  show ?thesis
    using l p
      lengths_invariant [where s = "ex_state (NumV (Fin 0)) (NumV PInf) 1" and rt = exact_rt
        and Ga = ex_G and Ma = ex_G and qa = ex_G and qda = ex_G and Fa = ex_G
        and lo = "NumV (Fin 0)" and up = "NumV PInf" and body_i = 1 and body_j = 0]
    by simp
qed

subsection \<open>C8: no iteration, no change\<close>

text \<open>
  C8, as the code has it. When the property \<open>iterations\<close> is zero, \<open>solve\<close> runs no sweep: its state at the end is its
  state at the start, and each of the six arrays of the bodies is still the array of
  zeros that \<open>reset\<close> created, whatever constraints were added in between. The
  property is zero when it is assigned so: the constructor stores \<open>iter || 10\<close>.
\<close>

theorem solve_zero_iterations:
  assumes "iterations s = 0"
  shows "solve_state rt (add_calls rt cas (reset nb s)) = solve_start rt (add_calls rt cas (reset nb s)) \<and>
         vxlambda (solve rt (add_calls rt cas (reset nb s))) = replicate nb (Fin 0) \<and>
         vylambda (solve rt (add_calls rt cas (reset nb s))) = replicate nb (Fin 0) \<and>
         vzlambda (solve rt (add_calls rt cas (reset nb s))) = replicate nb (Fin 0) \<and>
         wxlambda (solve rt (add_calls rt cas (reset nb s))) = replicate nb (Fin 0) \<and>
         wylambda (solve rt (add_calls rt cas (reset nb s))) = replicate nb (Fin 0) \<and>
         wzlambda (solve rt (add_calls rt cas (reset nb s))) = replicate nb (Fin 0)"
proof -
  let ?t = "add_calls rt cas (reset nb s)"
  have it: "iterations ?t \<le> 0"
    using assms by (simp add: add_calls_frame reset_def)
  have st: "solve_state rt ?t = solve_start rt ?t"
    by (rule solve_no_sweep [OF it])
  have fr: "vxlambda (solve rt ?t) = vxlambda ?t" "vylambda (solve rt ?t) = vylambda ?t"
    "vzlambda (solve rt ?t) = vzlambda ?t" "wxlambda (solve rt ?t) = wxlambda ?t"
    "wylambda (solve rt ?t) = wylambda ?t" "wzlambda (solve rt ?t) = wzlambda ?t"
    unfolding solve_def st fst_solve_start by simp_all
  have rs: "vxlambda ?t = replicate nb (Fin 0)" "vylambda ?t = replicate nb (Fin 0)"
    "vzlambda ?t = replicate nb (Fin 0)" "wxlambda ?t = replicate nb (Fin 0)"
    "wylambda ?t = replicate nb (Fin 0)" "wzlambda ?t = replicate nb (Fin 0)"
    by (simp_all add: add_calls_frame reset_def)
  show ?thesis
    using st fr rs by simp
qed

theorem solve_zero_iterations_witness:
  "iterations (ex_solver\<lparr> iterations := 0 \<rparr>) = 0 \<and>
   vxlambda (solve exact_rt (add_calls exact_rt [ex_args (NumV (Fin 0)) (NumV PInf) 1]
               (reset 2 (ex_solver\<lparr> iterations := 0 \<rparr>)))) = [Fin 0, Fin 0] \<and>
   wzlambda (solve exact_rt (add_calls exact_rt [ex_args (NumV (Fin 0)) (NumV PInf) 1]
               (reset 2 (ex_solver\<lparr> iterations := 0 \<rparr>)))) = [Fin 0, Fin 0]"
proof -
  have z: "iterations (ex_solver\<lparr> iterations := 0 \<rparr>) = 0"
    by simp
  show ?thesis
    using z solve_zero_iterations [OF z, of exact_rt "[ex_args (NumV (Fin 0)) (NumV PInf) 1]" 2]
    by (simp add: numeral_2_eq_2)
qed

text \<open>
  C8 as stated fails for the iteration count of the configuration: a solver constructed
  with the count zero has \<open>iterations = 10\<close>, and its \<open>solve\<close> runs ten sweeps, which
  change the velocities of both bodies of a constraint.
\<close>

theorem zero_iterations_counterexample:
  "iterations (Solver exact_rt (Fin 1) (Fin 1) (Fin 2) (Fin 0) (Fin 0) (Some 0) (Some (Fin 1))) = 10 \<and>
   iterations cfg_state = 10 \<and>
   vxlambda cfg_state = [Fin 0, Fin 0] \<and>
   vxlambda (solve exact_rt cfg_state) = [Fin (1 / 2), Fin (- (1 / 2))]"
proof -
  have e: "fst (solve_start exact_rt cfg_state) = cfg_inside [Fin 0, Fin 0]"
    by (simp add: cfg_start)
  have "vxlambda cfg_state = vxlambda (fst (solve_start exact_rt cfg_state))"
    "iterations cfg_state = iterations (fst (solve_start exact_rt cfg_state))"
    by (simp_all add: fst_solve_start)
  then have "vxlambda cfg_state = [Fin 0, Fin 0]" "iterations cfg_state = 10"
    unfolding e by (simp_all add: cfg_inside_def)
  then show ?thesis
    by (simp add: solve_def cfg_solve_state Solver_iterations_default) (simp add: cfg_inside_def)
qed

subsection \<open>C9: a constraint with one body\<close>

text \<open>
  C9 does not hold of the code. For a constraint added with the second body index \<open>-1\<close>,
  \<open>solve\<close> reads the arrays of the bodies at \<open>-1\<close> all the same; the read is
  \<open>undefined\<close>, so that \<open>Gulambda\<close>, \<open>lambda[l]\<close> and every velocity change of the first
  body become NaN.
\<close>

theorem solve_single_body_nan:
  "index_at (j (ex_state (NumV (Fin 0)) (NumV PInf) (- 1))) 0 = Some (- 1) \<and>
   body_at (vxlambda (ex_state (NumV (Fin 0)) (NumV PInf) (- 1))) (Some (- 1)) = NaN \<and>
   Gulambda exact_rt (ex_inside (NumV (Fin 0)) (NumV PInf) (- 1)) ex_work1 0 = NaN \<and>
   lambda (snd (solve_state exact_rt (ex_state (NumV (Fin 0)) (NumV PInf) (- 1)))) = [NaN] \<and>
   vxlambda (solve exact_rt (ex_state (NumV (Fin 0)) (NumV PInf) (- 1))) = [NaN, Fin 0]"
proof -
  have w: "snd (solve_state exact_rt (ex_state (NumV (Fin 0)) (NumV PInf) (- 1)))
             = ex_work1\<lparr> dlambda := [NaN], lambda := [NaN] \<rparr>"
    unfolding ex_solve_state snd_solve_body_clamped lower_clamped_def ex_updated_none
    by (simp add: clamp_lower_def lower_fires_def clamp_upper_def upper_fires_def truthy_object_def
          clamp_to_def ex_inside_eq flag_at_def bound_at_def isNaN_def num_at_def num_gt_def
          exact_rt_def num_sub_def ex_work1_def)
  have "vxlambda (solve exact_rt (ex_state (NumV (Fin 0)) (NumV PInf) (- 1))) = [NaN, Fin 0]"
    unfolding solve_def ex_solve_state fst_solve_body propagate_vxlambda
    unfolding ex_solve_state [symmetric] w
    by (simp add: slot_delta_def ex_inside_eq ex_work1_def ex_G_def num_at_def index_at_def
          body_add_def in_range_def exact_rt_def)
  then show ?thesis
    using w by (simp add: ex_state_eq ex_Gulambda_none index_at_def body_at_def in_range_def)
qed

subsection \<open>C10: a clamp leaves no increment to propagate\<close>

text \<open>
  C10, as the code has it. In one pass of the body of the inner loop, let a clamp fire,
  and let each bound whose clamp fires be a finite number that single precision holds
  exactly. Then \<open>lambda[l]\<close> ends as the bound of the last clamp that fired and
  \<open>dlambda[l]\<close> ends as exactly zero (zero is assumed to round to itself). When moreover
  the twelve slots of the constraint in \<open>MinvTrace\<close> and \<open>G\<close> are finite and the entries of
  the arrays of the bodies are single precision numbers, the propagation leaves the
  object as it was.
\<close>

theorem clamp_zeroes_delta:
  assumes "round64 rt 0 = Fin 0" and "round32 rt 0 = Fin 0"
    and "l < length (lambda w)" and "l < length (dlambda w)"
    and "lower_fires rt s l (updated rt s l w) \<or> upper_fires rt s l (lower_clamped rt s l w)"
    and "lower_fires rt s l (updated rt s l w) \<Longrightarrow> exact32 rt (toNumber rt (bound_at (lower s) l))"
    and "upper_fires rt s l (lower_clamped rt s l w) \<Longrightarrow> exact32 rt (toNumber rt (bound_at (upper s) l))"
  shows "num_at (dlambda (snd (solve_body rt l (s, w)))) l = Fin 0 \<and>
         num_at (lambda (snd (solve_body rt l (s, w)))) l =
           toNumber rt (bound_at (if upper_fires rt s l (lower_clamped rt s l w) then upper s else lower s) l) \<and>
         (slots_finite s w l \<and> deltas_stable rt s \<longrightarrow> fst (solve_body rt l (s, w)) = s)"
proof -
  let ?w2 = "updated rt s l w"
  let ?w3 = "lower_clamped rt s l w"
  let ?w4 = "snd (solve_body rt l (s, w))"
  have len2: "l < length (lambda ?w2)" "l < length (dlambda ?w2)"
    using assms(3,4) by (simp_all add: updated_frame)
  have len3: "l < length (lambda ?w3)" "l < length (dlambda ?w3)"
    using assms(3,4) by (simp_all add: lower_clamped_frame)
  have main: "num_at (lambda ?w4) l =
           toNumber rt (bound_at (if upper_fires rt s l ?w3 then upper s else lower s) l) \<and>
         num_at (dlambda ?w4) l = Fin 0"
  proof (cases "upper_fires rt s l ?w3")
    case True
    then have "?w4 = clamp_to rt (bound_at (upper s) l) l ?w3"
      by (simp add: snd_solve_body_clamped clamp_upper_def)
    then show ?thesis
      using True clamp_to_exact [OF assms(1,2) assms(7) [OF True] len3] by simp
  next
    case False
    then have lf: "lower_fires rt s l ?w2"
      using assms(5) by simp
    have "?w4 = clamp_to rt (bound_at (lower s) l) l ?w2"
      using False lf by (simp add: snd_solve_body_clamped clamp_upper_def lower_clamped_def clamp_lower_def)
    then show ?thesis
      using False clamp_to_exact [OF assms(1,2) assms(6) [OF lf] len2] by simp
  qed
  have g: "G32 ?w4 = G32 w"
    by (simp add: snd_solve_body_clamped clamp_upper_frame lower_clamped_frame)
  have "fst (solve_body rt l (s, w)) = s" if "slots_finite s w l" "deltas_stable rt s"
  proof -
    have "slots_finite s ?w4 l"
      using that(1) g by (simp add: slots_finite_def)
    then show ?thesis
      unfolding fst_solve_body
      using main that(2) assms(1) by (intro propagate_zero) simp_all
  qed
  then show ?thesis
    using main by simp
qed

theorem clamp_zeroes_delta_witness:
  "round64 exact_rt 0 = Fin 0 \<and> round32 exact_rt 0 = Fin 0 \<and>
   lower_fires exact_rt (ex_inside (NumV (Fin 0)) (NumV PInf) 1) 0
     (updated exact_rt (ex_inside (NumV (Fin 0)) (NumV PInf) 1) 0 ex_work) \<and>
   exact32 exact_rt (toNumber exact_rt (bound_at (lower (ex_inside (NumV (Fin 0)) (NumV PInf) 1)) 0)) \<and>
   slots_finite (ex_inside (NumV (Fin 0)) (NumV PInf) 1) ex_work 0 \<and>
   deltas_stable exact_rt (ex_inside (NumV (Fin 0)) (NumV PInf) 1) \<and>
   num_at (dlambda (snd (solve_body exact_rt 0 (ex_inside (NumV (Fin 0)) (NumV PInf) 1, ex_work)))) 0 = Fin 0 \<and>
   num_at (lambda (snd (solve_body exact_rt 0 (ex_inside (NumV (Fin 0)) (NumV PInf) 1, ex_work)))) 0 = Fin 0 \<and>
   fst (solve_body exact_rt 0 (ex_inside (NumV (Fin 0)) (NumV PInf) 1, ex_work))
     = ex_inside (NumV (Fin 0)) (NumV PInf) 1"
proof -
  let ?s = "ex_inside (NumV (Fin 0)) (NumV PInf) 1"
  have z: "round64 exact_rt 0 = Fin 0" "round32 exact_rt 0 = Fin 0"
    by (simp_all add: exact_rt_def)
  have len: "0 < length (lambda ex_work)" "0 < length (dlambda ex_work)"
    by (simp_all add: ex_work_def)
  have lf: "lower_fires exact_rt ?s 0 (updated exact_rt ?s 0 ex_work)"
    unfolding ex_updated
    by (simp add: lower_fires_def ex_inside_eq flag_at_def bound_at_def isNaN_def num_at_def ex_work1_def)
  have uf: "\<not> upper_fires exact_rt ?s 0 (lower_clamped exact_rt ?s 0 ex_work)"
    unfolding ex_lower_clamped
    by (simp add: upper_fires_def ex_inside_eq bound_at_def num_at_def ex_work1_def num_gt_def)
  have ex: "exact32 exact_rt (toNumber exact_rt (bound_at (lower ?s) 0))"
    by (simp add: exact32_def ex_inside_eq bound_at_def exact_rt_def)
  have sf: "slots_finite ?s ex_work 0"
    by (simp add: slots_finite_def ex_inside_eq ex_work_def ex_G_def upt_rec num_at_def is_fin_def)
  have ds: "deltas_stable exact_rt ?s"
    by (simp add: deltas_stable_def ex_inside_eq stable_def exact_rt_def)
  have lo: "toNumber exact_rt (bound_at (lower ?s) 0) = Fin 0"
    by (simp add: ex_inside_eq bound_at_def)
  show ?thesis
    using z lf ex sf ds uf lo
      clamp_zeroes_delta [where rt = exact_rt and s = ?s and l = 0 and w = ex_work, OF z len]
    by simp
qed

text \<open>
  C10 as stated fails for an infinite bound: with the lower bound \<open>+Infinity\<close> the clamp
  fires, \<open>lambda[l]\<close> becomes infinite, \<open>dlambda[l]\<close> is the difference of two infinities,
  which is NaN and not zero, and the propagation turns the velocity changes of both
  bodies into NaN.
\<close>

theorem clamp_infinite_counterexample:
  "lower_fires exact_rt (ex_inside (NumV PInf) (NumV PInf) 1) 0
     (updated exact_rt (ex_inside (NumV PInf) (NumV PInf) 1) 0 ex_work) \<and>
   lambda (snd (solve_state exact_rt (ex_state (NumV PInf) (NumV PInf) 1))) = [PInf] \<and>
   dlambda (snd (solve_state exact_rt (ex_state (NumV PInf) (NumV PInf) 1))) = [NaN] \<and>
   vxlambda (ex_state (NumV PInf) (NumV PInf) 1) = [Fin 0, Fin 0] \<and>
   vxlambda (solve exact_rt (ex_state (NumV PInf) (NumV PInf) 1)) = [NaN, NaN]"
proof -
  let ?s = "ex_inside (NumV PInf) (NumV PInf) 1"
  have lf: "lower_fires exact_rt ?s 0 (updated exact_rt ?s 0 ex_work)"
    unfolding ex_updated
    by (simp add: lower_fires_def ex_inside_eq flag_at_def bound_at_def isNaN_def num_at_def ex_work1_def)
  have w: "snd (solve_state exact_rt (ex_state (NumV PInf) (NumV PInf) 1))
             = ex_work1\<lparr> dlambda := [NaN], lambda := [PInf] \<rparr>"
    unfolding ex_solve_state snd_solve_body_clamped lower_clamped_def ex_updated
    by (simp add: clamp_lower_def lower_fires_def clamp_upper_def upper_fires_def truthy_object_def
          clamp_to_def ex_inside_eq flag_at_def bound_at_def isNaN_def num_at_def num_gt_def
          exact_rt_def num_sub_def ex_work1_def)
  have "vxlambda (solve exact_rt (ex_state (NumV PInf) (NumV PInf) 1)) = [NaN, NaN]"
    unfolding solve_def ex_solve_state fst_solve_body propagate_vxlambda
    unfolding ex_solve_state [symmetric] w
    by (simp add: slot_delta_def ex_inside_eq ex_work1_def ex_G_def num_at_def index_at_def
          body_add_def in_range_def exact_rt_def)
  then show ?thesis
    using lf w by (simp add: ex_state_eq)
qed


end
